theory Spec2Isabelle
  imports Complex_Main "HOL-Library.Sublist"
begin

section \<open>Python values\<close>

text \<open>
  What \<^verbatim>\<open>json.loads\<close> returns: \<^verbatim>\<open>None\<close>, a bool, an int, a float, a str, a list
  or a dict with str keys. A dict is the list of its items, each key once; a key is
  looked up with \<^const>\<open>map_of\<close>. A finite float is its exact rational value; the three
  other floats are what \<^verbatim>\<open>json.loads\<close> makes of the literals \<^verbatim>\<open>Infinity\<close>,
  \<^verbatim>\<open>-Infinity\<close> and \<^verbatim>\<open>NaN\<close>. A str is the list of the bytes of its UTF-8 encoding
  (a str with a lone surrogate has none and is not modelled).
\<close>

datatype json =
    JNull
  | JBool bool
  | JInt int
  | JFloat rat
  | JInfinity
  | JNegInfinity
  | JNaN
  | JStr string
  | JArr "json list"
  | JObj "(string \<times> json) list"

text \<open>The exceptions that the operations of the scripts on such values can raise.\<close>

datatype pyexc =
    TypeError
  | AttributeError
  | KeyError
  | ValueError
  | OverflowError
  | OSError
  | UnicodeEncodeError

text \<open>Truth value of a Python value, as \<^verbatim>\<open>if x\<close> and \<^verbatim>\<open>not x\<close> test it.\<close>

fun py_truthy :: "json \<Rightarrow> bool" where
  "py_truthy JNull = False"
| "py_truthy (JBool b) = b"
| "py_truthy (JInt i) = (i \<noteq> 0)"
| "py_truthy (JFloat r) = (r \<noteq> 0)"
| "py_truthy JInfinity = True"
| "py_truthy JNegInfinity = True"
| "py_truthy JNaN = True"
| "py_truthy (JStr s) = (s \<noteq> [])"
| "py_truthy (JArr xs) = (xs \<noteq> [])"
| "py_truthy (JObj kv) = (kv \<noteq> [])"

text \<open>
  \<^verbatim>\<open>k in x\<close> for a str \<^verbatim>\<open>k\<close>: a key test on a dict, an element test on a list, a
  substring test on a str, and a \<^verbatim>\<open>TypeError\<close> on anything else.
\<close>

fun py_contains :: "string \<Rightarrow> json \<Rightarrow> pyexc + bool" where
  "py_contains k (JObj kv) = Inr (map_of kv k \<noteq> None)"
| "py_contains k (JArr xs) = Inr (List.member xs (JStr k))"
| "py_contains k (JStr s) = Inr (sublist k s)"
| "py_contains k JNull = Inl TypeError"
| "py_contains k (JBool b) = Inl TypeError"
| "py_contains k (JInt i) = Inl TypeError"
| "py_contains k (JFloat r) = Inl TypeError"
| "py_contains k JInfinity = Inl TypeError"
| "py_contains k JNegInfinity = Inl TypeError"
| "py_contains k JNaN = Inl TypeError"

text \<open>\<^verbatim>\<open>x[k]\<close> for a str \<^verbatim>\<open>k\<close>: only a dict can be subscripted with a str.\<close>

fun py_getitem :: "json \<Rightarrow> string \<Rightarrow> pyexc + json" where
  "py_getitem (JObj kv) k = (case map_of kv k of None \<Rightarrow> Inl KeyError | Some v \<Rightarrow> Inr v)"
| "py_getitem JNull k = Inl TypeError"
| "py_getitem (JBool b) k = Inl TypeError"
| "py_getitem (JInt i) k = Inl TypeError"
| "py_getitem (JFloat r) k = Inl TypeError"
| "py_getitem JInfinity k = Inl TypeError"
| "py_getitem JNegInfinity k = Inl TypeError"
| "py_getitem JNaN k = Inl TypeError"
| "py_getitem (JStr s) k = Inl TypeError"
| "py_getitem (JArr xs) k = Inl TypeError"

text \<open>
  \<^verbatim>\<open>x.get(k, d)\<close>: only a dict has the attribute. \<^verbatim>\<open>x.get(k)\<close> is
  \<^verbatim>\<open>x.get(k, None)\<close>.
\<close>

fun py_get :: "json \<Rightarrow> string \<Rightarrow> json \<Rightarrow> pyexc + json" where
  "py_get (JObj kv) k d = Inr (case map_of kv k of None \<Rightarrow> d | Some v \<Rightarrow> v)"
| "py_get JNull k d = Inl AttributeError"
| "py_get (JBool b) k d = Inl AttributeError"
| "py_get (JInt i) k d = Inl AttributeError"
| "py_get (JFloat r) k d = Inl AttributeError"
| "py_get JInfinity k d = Inl AttributeError"
| "py_get JNegInfinity k d = Inl AttributeError"
| "py_get JNaN k d = Inl AttributeError"
| "py_get (JStr s) k d = Inl AttributeError"
| "py_get (JArr xs) k d = Inl AttributeError"

text \<open>
  The finite number a value stands for in a comparison, in \<^verbatim>\<open>time.sleep\<close> or in
  \<^verbatim>\<open>time.localtime\<close>: a bool is an int.
\<close>

fun py_number :: "json \<Rightarrow> rat option" where
  "py_number (JInt i) = Some (of_int i)"
| "py_number (JFloat r) = Some r"
| "py_number (JBool b) = Some (if b then 1 else 0)"
| "py_number JInfinity = None"
| "py_number JNegInfinity = None"
| "py_number JNaN = None"
| "py_number JNull = None"
| "py_number (JStr s) = None"
| "py_number (JArr xs) = None"
| "py_number (JObj kv) = None"

text \<open>
  \<^verbatim>\<open>x < v\<close> for a float \<^verbatim>\<open>x\<close>: a \<^verbatim>\<open>TypeError\<close> when \<^verbatim>\<open>v\<close> is no number; nothing is
  less than \<^verbatim>\<open>NaN\<close>.
\<close>

fun py_less :: "rat \<Rightarrow> json \<Rightarrow> pyexc + bool" where
  "py_less x (JInt i) = Inr (x < of_int i)"
| "py_less x (JFloat r) = Inr (x < r)"
| "py_less x (JBool b) = Inr (x < (if b then 1 else 0))"
| "py_less x JInfinity = Inr True"
| "py_less x JNegInfinity = Inr False"
| "py_less x JNaN = Inr False"
| "py_less x JNull = Inl TypeError"
| "py_less x (JStr s) = Inl TypeError"
| "py_less x (JArr xs) = Inl TypeError"
| "py_less x (JObj kv) = Inl TypeError"

text \<open>
  The seconds \<^verbatim>\<open>time.sleep(v)\<close> sleeps. CPython counts the duration in nanoseconds in a
  signed 64-bit integer and raises an \<^verbatim>\<open>OverflowError\<close> for a number out of its range;
  then a \<^verbatim>\<open>ValueError\<close> for a negative number. An int is in range from -9223372036 to
  9223372036. A float is multiplied by \<^verbatim>\<open>1e9\<close> as a double, and the product, rounded
  to the nearest double, must be at least \<^verbatim>\<open>-2**63\<close> and less than \<^verbatim>\<open>2**63\<close>:
  the exact product is then at least \<^verbatim>\<open>-2**63 - 1024\<close> and less than
  \<^verbatim>\<open>2**63 - 512\<close>. These two bounds in seconds are no ints and no doubles, and lie
  between -9223372037 and -9223372036 and between 9223372036 and 9223372037: they bound
  the ints as well. \<^verbatim>\<open>NaN\<close> is a \<^verbatim>\<open>ValueError\<close>, an infinite float an
  \<^verbatim>\<open>OverflowError\<close>, and a value that is no number a \<^verbatim>\<open>TypeError\<close>.
\<close>

definition sleep_max :: rat where
  "sleep_max = (2 ^ 63 - 512) / 10 ^ 9"

definition sleep_min :: rat where
  "sleep_min = - (2 ^ 63 + 1024) / 10 ^ 9"

fun sleep_seconds :: "json \<Rightarrow> pyexc + rat" where
  "sleep_seconds JInfinity = Inl OverflowError"
| "sleep_seconds JNegInfinity = Inl OverflowError"
| "sleep_seconds JNaN = Inl ValueError"
| "sleep_seconds v =
     (case py_number v of
        None \<Rightarrow> Inl TypeError
      | Some d \<Rightarrow>
          if d < sleep_min \<or> sleep_max < d then Inl OverflowError
          else if d < 0 then Inl ValueError
          else Inr d)"

text \<open>
  \<^verbatim>\<open>x[:n]\<close>, whose value the scripts only print: a str and a list can be sliced, and
  any other value raises a \<^verbatim>\<open>TypeError\<close> (a dict a \<^verbatim>\<open>KeyError\<close> instead from
  Python 3.12 on, where a slice can be hashed).
\<close>

fun py_slice :: "json \<Rightarrow> pyexc + unit" where
  "py_slice (JStr s) = Inr ()"
| "py_slice (JArr xs) = Inr ()"
| "py_slice (JObj kv) = Inl TypeError"
| "py_slice JNull = Inl TypeError"
| "py_slice (JBool b) = Inl TypeError"
| "py_slice (JInt i) = Inl TypeError"
| "py_slice (JFloat r) = Inl TypeError"
| "py_slice JInfinity = Inl TypeError"
| "py_slice JNegInfinity = Inl TypeError"
| "py_slice JNaN = Inl TypeError"

text \<open>
  \<^verbatim>\<open>time.strftime(format, time.localtime(v))\<close>: \<^verbatim>\<open>None\<close> stands for the current time,
  \<^verbatim>\<open>NaN\<close> is a \<^verbatim>\<open>ValueError\<close>, an infinite float an \<^verbatim>\<open>OverflowError\<close>, and a value
  that is no number a \<^verbatim>\<open>TypeError\<close>. Which numbers are refused (with an
  \<^verbatim>\<open>OverflowError\<close> or an \<^verbatim>\<open>OSError\<close> of \<^verbatim>\<open>time.localtime\<close>, or a
  \<^verbatim>\<open>ValueError\<close> of \<^verbatim>\<open>time.strftime\<close>) depends on the platform and on the time
  zone: the parameter \<open>localtime\<close> gives the exception for a number of seconds, if there
  is one.
\<close>

fun strftime_localtime :: "(rat \<Rightarrow> pyexc option) \<Rightarrow> json \<Rightarrow> pyexc + unit" where
  "strftime_localtime localtime JNull = Inr ()"
| "strftime_localtime localtime JInfinity = Inl OverflowError"
| "strftime_localtime localtime JNegInfinity = Inl OverflowError"
| "strftime_localtime localtime JNaN = Inl ValueError"
| "strftime_localtime localtime v =
     (case py_number v of
        None \<Rightarrow> Inl TypeError
      | Some x \<Rightarrow> (case localtime x of None \<Rightarrow> Inr () | Some e \<Rightarrow> Inl e))"

text \<open>
  What \<^verbatim>\<open>http.client\<close> does with the headers of a request before anything is sent:
  each value is encoded as Latin-1 (a \<^verbatim>\<open>UnicodeEncodeError\<close> for a character above
  U+00FF, whose UTF-8 encoding has a byte from 0xC4 on), and refused with a
  \<^verbatim>\<open>ValueError\<close> when it has a line feed that no space or tab follows, or a carriage
  return that no space, tab or line feed follows. The names the scripts use are legal.
\<close>

definition latin1 :: "string \<Rightarrow> bool" where
  "latin1 s = list_all (\<lambda>c. (of_char c :: nat) < 196) s"

fun illegal_header_value :: "string \<Rightarrow> bool" where
  "illegal_header_value [] = False"
| "illegal_header_value [c] = (c = CHR 0x0A \<or> c = CHR 0x0D)"
| "illegal_header_value (c # n # cs) =
     (c = CHR 0x0A \<and> n \<noteq> CHR 0x20 \<and> n \<noteq> CHR 0x09 \<or>
      c = CHR 0x0D \<and> n \<noteq> CHR 0x20 \<and> n \<noteq> CHR 0x09 \<and> n \<noteq> CHR 0x0A \<or>
      illegal_header_value (n # cs))"

fun putheader_error :: "(string \<times> string) list \<Rightarrow> pyexc option" where
  "putheader_error [] = None"
| "putheader_error ((name, v) # hs) =
     (if \<not> latin1 v then Some UnicodeEncodeError
      else if illegal_header_value v then Some ValueError
      else putheader_error hs)"

section \<open>The world the scripts run in\<close>

text \<open>
  One HTTPS exchange of \<^verbatim>\<open>http.client\<close> ends in a connection failure, in a body that is
  not UTF-8, or in the decoded text of the body (the status code is never read).
\<close>

datatype reply = ConnectionFailed | UndecodableBody | Text string

record request =
  host :: string
  meth :: string
  path :: string
  body :: "json option"
  headers :: "(string \<times> string) list"

text \<open>
  The lines the scripts print that depend on the run, by kind. Banners, blank lines and
  fixed headings are left out.
\<close>

datatype message =
    MsgDeviceError json
  | MsgVisit json
  | MsgCode json
  | MsgExpires json
  | MsgTokenReceived
  | MsgDot
  | MsgError json
  | MsgTimeout
  | MsgGitHubToken json
  | MsgCopilotToken json
  | MsgExpiresAt json
  | MsgUsage json
  | MsgExchangeFailed json

text \<open>
  The effects of a run in the order they happen: a sleep (clock at its start, its length),
  a request that \<^verbatim>\<open>http.client\<close> accepted (clock when the script issues it) and a
  printed line. Printing is taken to succeed.
\<close>

datatype event = Slept rat rat | Request rat request | Printed message

text \<open>
  The world: the wall clock (seconds, \<^verbatim>\<open>time.time()\<close>), the replies the network will give
  to the coming requests, each with the time the exchange takes, the two library functions
  whose code is not part of the scripts (\<^verbatim>\<open>json.loads\<close>, \<open>None\<close> for a
  \<^verbatim>\<open>JSONDecodeError\<close>, and \<^verbatim>\<open>str\<close> as an f-string applies it), and the effects so far.
  A run that asks for more replies than the world holds has no result (\<open>None\<close>).
\<close>

record world =
  clock :: rat
  network :: "(rat \<times> reply) list"
  json_loads :: "string \<Rightarrow> json option"
  py_str :: "json \<Rightarrow> string"
  trace :: "event list"

text \<open>The world after a printed line, after a sleep, and after an exchange.\<close>

definition printed :: "message \<Rightarrow> world \<Rightarrow> world" where
  "printed m w = w\<lparr>trace := trace w @ [Printed m]\<rparr>"

definition slept :: "rat \<Rightarrow> world \<Rightarrow> world" where
  "slept d w = w\<lparr>clock := clock w + d, trace := trace w @ [Slept (clock w) d]\<rparr>"

definition exchanged :: "request \<Rightarrow> rat \<Rightarrow> (rat \<times> reply) list \<Rightarrow> world \<Rightarrow> world" where
  "exchanged req latency rest w =
     w\<lparr>clock := clock w + latency, network := rest,
       trace := trace w @ [Request (clock w) req]\<rparr>"

text \<open>
  How a script ends when it does not reach its end, named as the design names the kinds
  of failure:
  \<^item> \<open>AuthServerError\<close>: \<^verbatim>\<open>start_device_flow\<close> prints the response and exits with
    status 1 (lines 57 to 59);
  \<^item> \<open>AuthorizationError\<close>: the loop of \<^verbatim>\<open>main\<close> prints the description and exits
    with status 1 (lines 129 to 132);
  \<^item> \<open>TimeoutError\<close>: the test after the loop prints the timeout and exits with status
    1 (lines 134 to 137);
  \<^item> \<open>ExchangeError\<close>: the response of the exchange has no \<^verbatim>\<open>token\<close>, and
    \<^verbatim>\<open>get_enterprise_token.py\<close> prints the response and exits with status 1 (lines
    135 to 142); \<^verbatim>\<open>get_copilot_token.py\<close> has no such exit;
  \<^item> \<open>TransportError\<close>: an exception of the exchange itself, which \<^verbatim>\<open>http.client\<close>,
    \<^verbatim>\<open>decode\<close> or \<^verbatim>\<open>json.loads\<close> raises inside \<^verbatim>\<open>make_request\<close>; nothing
    catches it;
  \<^item> \<open>Uncaught\<close>: any other exception; nothing catches it either.
\<close>

datatype transport_failure = ConnectionError | UnicodeDecodeError | JSONDecodeError

datatype error =
    AuthServerError json
  | AuthorizationError json
  | TimeoutError
  | ExchangeError json
  | TransportError transport_failure
  | Uncaught pyexc

type_synonym 'a prog = "world \<Rightarrow> ((error + 'a) \<times> world) option"

definition return :: "'a \<Rightarrow> 'a prog" where
  "return x w = Some (Inr x, w)"

definition raise :: "error \<Rightarrow> 'a prog" where
  "raise e w = Some (Inl e, w)"

definition bind :: "'a prog \<Rightarrow> ('a \<Rightarrow> 'b prog) \<Rightarrow> 'b prog" where
  "bind m f w =
     (case m w of
        None \<Rightarrow> None
      | Some (Inl e, w') \<Rightarrow> Some (Inl e, w')
      | Some (Inr x, w') \<Rightarrow> f x w')"

definition lift :: "pyexc + 'a \<Rightarrow> 'a prog" where
  "lift r w = Some (case r of Inl e \<Rightarrow> Inl (Uncaught e) | Inr x \<Rightarrow> Inr x, w)"

definition emit :: "message \<Rightarrow> unit prog" where
  "emit m w = Some (Inr (), printed m w)"

definition time_time :: "rat prog" where
  "time_time w = Some (Inr (clock w), w)"

text \<open>
  \<^verbatim>\<open>time.sleep(secs)\<close>: an exception for a value that is no duration, as
  \<^const>\<open>sleep_seconds\<close> says. The clock moves on by \<open>secs\<close>; what a real sleep adds to
  that is part of the time the next exchange takes.
\<close>

definition time_sleep :: "json \<Rightarrow> unit prog" where
  "time_sleep secs w =
     (case sleep_seconds secs of
        Inl e \<Rightarrow> Some (Inl (Uncaught e), w)
      | Inr d \<Rightarrow> Some (Inr (), slept d w))"

text \<open>
  \<^verbatim>\<open>conn.request(...); conn.getresponse(); response.read().decode(); conn.close()\<close>:
  when \<^verbatim>\<open>http.client\<close> refuses a header, its exception, with nothing sent and no
  reply used; else the next reply of the world, after the time it takes.
\<close>

definition https_exchange :: "request \<Rightarrow> string prog" where
  "https_exchange req w =
     (case putheader_error (headers req) of
        Some e \<Rightarrow> Some (Inl (Uncaught e), w)
      | None \<Rightarrow>
          (case network w of
             [] \<Rightarrow> None
           | (latency, r) # rest \<Rightarrow>
               Some (case r of
                       ConnectionFailed \<Rightarrow> Inl (TransportError ConnectionError)
                     | UndecodableBody \<Rightarrow> Inl (TransportError UnicodeDecodeError)
                     | Text s \<Rightarrow> Inr s,
                     exchanged req latency rest w)))"

definition loads :: "string \<Rightarrow> json prog" where
  "loads s w =
     Some (case json_loads w s of
             None \<Rightarrow> Inl (TransportError JSONDecodeError)
           | Some v \<Rightarrow> Inr v, w)"

text \<open>\<^verbatim>\<open>f"{v}"\<close>: a str is itself, any other value is what \<^verbatim>\<open>str\<close> makes of it.\<close>

definition py_format :: "json \<Rightarrow> string prog" where
  "py_format v w = Some (Inr (case v of JStr s \<Rightarrow> s | _ \<Rightarrow> py_str w v), w)"

section \<open>get_copilot_token.py\<close>

definition CLIENT_ID :: string where
  "CLIENT_ID = ''Iv1.b507a08c87ecfe98''"

definition SCOPES :: string where
  "SCOPES = ''read:user''"

text \<open>
  \<^verbatim>\<open>make_request(host, path, data=None, headers=None, method="POST")\<close>. An argument left
  out is \<open>None\<close>. The body sent is the document \<^verbatim>\<open>json.dumps\<close> serialises, and none when
  \<^verbatim>\<open>data\<close> is falsy. An empty response body is read as the empty dict.
\<close>

definition make_request ::
  "string \<Rightarrow> string \<Rightarrow> json option \<Rightarrow> (string \<times> string) list option \<Rightarrow> string option
     \<Rightarrow> json prog" where
  "make_request host' path' data headers' method =
     (let hdrs = (case headers' of
                    None \<Rightarrow> [(''Content-Type'', ''application/json''),
                             (''Accept'', ''application/json'')]
                  | Some h \<Rightarrow> h);
          body' = (case data of
                     None \<Rightarrow> None
                   | Some d \<Rightarrow> if py_truthy d then Some d else None)
      in bind (https_exchange \<lparr>host = host',
                                meth = (case method of None \<Rightarrow> ''POST'' | Some m \<Rightarrow> m),
                                path = path', body = body', headers = hdrs\<rparr>)
           (\<lambda>data. if data \<noteq> [] then loads data else return (JObj [])))"

definition start_device_flow :: "json prog" where
  "start_device_flow =
     bind (make_request ''github.com'' ''/login/device/code''
             (Some (JObj [(''client_id'', JStr CLIENT_ID), (''scope'', JStr SCOPES)]))
             None None)
       (\<lambda>data.
     bind (lift (py_contains ''error'' data)) (\<lambda>has_error.
     if has_error then bind (emit (MsgDeviceError data)) (\<lambda>_. raise (AuthServerError data))
     else return data))"

definition poll_for_token :: "json \<Rightarrow> json prog" where
  "poll_for_token device_code =
     make_request ''github.com'' ''/login/oauth/access_token''
       (Some (JObj [(''client_id'', JStr CLIENT_ID),
                    (''device_code'', device_code),
                    (''grant_type'', JStr ''urn:ietf:params:oauth:grant-type:device_code'')]))
       None None"

definition get_copilot_token :: "json \<Rightarrow> json prog" where
  "get_copilot_token github_token =
     bind (py_format github_token) (\<lambda>tok.
     make_request ''api.github.com'' ''/copilot_internal/v2/token'' None
       (Some [(''Authorization'', ''token '' @ tok),
              (''Accept'', ''application/json''),
              (''Content-Type'', ''application/json''),
              (''User-Agent'', ''GitHubCopilotChat/0.26.7''),
              (''Editor-Version'', ''vscode/1.85.1'')])
       (Some ''POST''))"

text \<open>
  The \<^verbatim>\<open>if\<close>/\<^verbatim>\<open>elif\<close> chain on a poll result in the loop of \<^verbatim>\<open>main\<close> (lines 123 to
  132): it leaves the loop with the value assigned to \<^verbatim>\<open>github_token\<close>, or goes
  back to the loop test, or exits the script.
\<close>

datatype control = Break json | Continue

definition handle_result :: "json \<Rightarrow> control prog" where
  "handle_result result =
     bind (lift (py_contains ''access_token'' result)) (\<lambda>has_token.
     if has_token then
       bind (lift (py_getitem result ''access_token'')) (\<lambda>github_token.
       bind (emit MsgTokenReceived) (\<lambda>_.
       return (Break github_token)))
     else
       bind (lift (py_get result ''error'' JNull)) (\<lambda>err.
       if err = JStr ''authorization_pending'' then
         bind (emit MsgDot) (\<lambda>_. return Continue)
       else if py_truthy err then
         bind (lift (py_getitem result ''error'')) (\<lambda>dflt.
         bind (lift (py_get result ''error_description'' dflt)) (\<lambda>description.
         bind (emit (MsgError description)) (\<lambda>_.
         raise (AuthorizationError description))))
       else return Continue))"

text \<open>One pass through the body of the loop (lines 119 to 132): sleep, poll, the chain.\<close>

definition loop_body :: "json \<Rightarrow> json \<Rightarrow> control prog" where
  "loop_body device_code interval =
     bind (time_sleep interval) (\<lambda>_.
     bind (poll_for_token device_code) handle_result)"

text \<open>
  The polling loop of \<^verbatim>\<open>main\<close> (lines 118 to 132). Its result is the value of
  \<^verbatim>\<open>github_token\<close> when the loop is left: \<^verbatim>\<open>None\<close> when the loop test fails.
\<close>

function poll_loop :: "json \<Rightarrow> json \<Rightarrow> json \<Rightarrow> rat \<Rightarrow> json prog" where
  "poll_loop device_code interval expires_in start_time w =
     (case py_less (clock w - start_time) expires_in of
        Inl e \<Rightarrow> Some (Inl (Uncaught e), w)
      | Inr in_time \<Rightarrow>
          if in_time then
            (case loop_body device_code interval w of
               None \<Rightarrow> None
             | Some (Inl err, w') \<Rightarrow> Some (Inl err, w')
             | Some (Inr (Break github_token), w') \<Rightarrow> Some (Inr github_token, w')
             | Some (Inr Continue, w') \<Rightarrow>
                 poll_loop device_code interval expires_in start_time w')
          else Some (Inr JNull, w))"
  by pat_completeness auto
termination
proof (relation "measure (\<lambda>(device_code, interval, expires_in, start_time, w). length (network w))")
  show "wf (measure (\<lambda>(device_code, interval, expires_in, start_time, w). length (network w)))"
    by simp
next
  fix device_code interval expires_in :: json and start_time :: rat and w w' :: world
    and x2 :: "(error + control) \<times> world" and x :: "error + control" and c :: control
  assume body: "loop_body device_code interval w = Some x2" "(x, w') = x2" "x = Inr c"
  have inv: "\<exists>y w1. m v = Some (Inr y, w1) \<and> f y w1 = Some (Inr r, v')"
    if "bind m f v = Some (Inr r, v')"
    for m :: "'a prog" and f :: "'a \<Rightarrow> 'b prog" and v v' r
    using that by (auto simp: bind_def split: option.splits sum.splits prod.splits)
  from body have run: "loop_body device_code interval w = Some (Inr c, w')"
    by simp
  from inv [OF run [unfolded loop_body_def]] obtain u w1 where
    sleep: "time_sleep interval w = Some (Inr u, w1)" and
    run1: "bind (poll_for_token device_code) handle_result w1 = Some (Inr c, w')"
    by blast
  from inv [OF run1] obtain result w2 where
    poll: "poll_for_token device_code w1 = Some (Inr result, w2)" and
    run2: "handle_result result w2 = Some (Inr c, w')"
    by blast
  from sleep have n1: "network w1 = network w"
    by (auto simp: time_sleep_def slept_def split: sum.splits)
  from poll have n2: "length (network w2) < length (network w1)"
    by (auto simp: poll_for_token_def make_request_def https_exchange_def bind_def loads_def
          return_def exchanged_def Let_def
        split: list.splits reply.splits option.splits if_splits)
  from run2 have n3: "network w' = network w2"
    by (auto simp: handle_result_def bind_def lift_def emit_def return_def raise_def
          printed_def split: sum.splits if_splits)
  from n1 n2 n3 have "length (network w') < length (network w)"
    by simp
  then show "((device_code, interval, expires_in, start_time, w'),
              (device_code, interval, expires_in, start_time, w))
             \<in> measure (\<lambda>(device_code, interval, expires_in, start_time, w). length (network w))"
    by simp
qed

declare poll_loop.simps [simp del]

text \<open>The test after the loop (lines 134 to 137): no token, or a falsy one, is a timeout.\<close>

definition timeout_check :: "json \<Rightarrow> json prog" where
  "timeout_check github_token =
     (if \<not> py_truthy github_token then bind (emit MsgTimeout) (\<lambda>_. raise TimeoutError)
      else return github_token)"

text \<open>The loop and the test after it (lines 118 to 137).\<close>

definition polling :: "json \<Rightarrow> json \<Rightarrow> json \<Rightarrow> rat \<Rightarrow> json prog" where
  "polling device_code interval expires_in start_time =
     bind (poll_loop device_code interval expires_in start_time) timeout_check"

text \<open>
  Step 2 of \<^verbatim>\<open>main\<close> (lines 110 to 137), from the device authorization that step 1
  got to the GitHub token.
\<close>

definition poll_until_authorized :: "json \<Rightarrow> json prog" where
  "poll_until_authorized device_data =
     bind (lift (py_getitem device_data ''device_code'')) (\<lambda>device_code.
     bind (lift (py_get device_data ''interval'' (JInt 5))) (\<lambda>interval.
     bind (lift (py_get device_data ''expires_in'' (JInt 900))) (\<lambda>expires_in.
     bind time_time (\<lambda>start_time.
     polling device_code interval expires_in start_time))))"

text \<open>Steps 1 and 2 of \<^verbatim>\<open>main\<close> (lines 100 to 137).\<close>

definition device_flow :: "json prog" where
  "device_flow =
     bind start_device_flow (\<lambda>device_data.
     bind (lift (py_getitem device_data ''verification_uri'')) (\<lambda>uri.
     bind (emit (MsgVisit uri)) (\<lambda>_.
     bind (lift (py_getitem device_data ''user_code'')) (\<lambda>code.
     bind (emit (MsgCode code)) (\<lambda>_.
     bind (lift (py_get device_data ''expires_in'' (JInt 900))) (\<lambda>shown.
     bind (emit (MsgExpires shown)) (\<lambda>_.
     poll_until_authorized device_data)))))))"

text \<open>
  The Copilot token as \<^verbatim>\<open>main\<close> holds it in \<^verbatim>\<open>copilot_token\<close> and
  \<^verbatim>\<open>expires_at\<close>, the two values that both scripts then hand to \<^verbatim>\<open>json.dump\<close> as
  \<^verbatim>\<open>{"token": copilot_token, "expiresAt": expires_at}\<close> (line 191; line 127 of
  \<^verbatim>\<open>get_enterprise_token.py\<close>).
\<close>

record secondary_token =
  token :: json
  expiresAt :: json

text \<open>
  \<^verbatim>\<open>main\<close> from the exchange on (lines 143 to 202). With a \<^verbatim>\<open>token\<close> in the
  response the script reports both tokens: line 156 prints the GitHub token, line 159 the
  Copilot token, line 161 the expiry through \<^verbatim>\<open>time.localtime\<close>, and line 170 the first
  characters of the GitHub token; lines 161 and 170 can raise. The result is then the
  Copilot token that \<^verbatim>\<open>main\<close> holds. The files written last (lines 178 to 196) are
  not modelled: that step is inside \<^verbatim>\<open>try\<close> and \<^verbatim>\<open>except Exception\<close> and cannot
  end the script. Without a \<^verbatim>\<open>token\<close> the script prints the response and the GitHub
  token (lines 199 and 202) and \<^verbatim>\<open>main\<close> returns, with no Copilot token: the
  result \<open>None\<close>.
\<close>

definition main_exchange :: "(rat \<Rightarrow> pyexc option) \<Rightarrow> json \<Rightarrow> secondary_token option prog" where
  "main_exchange localtime github_token =
     bind (get_copilot_token github_token) (\<lambda>copilot_data.
     bind (lift (py_contains ''token'' copilot_data)) (\<lambda>has_token.
     if has_token then
       bind (lift (py_getitem copilot_data ''token'')) (\<lambda>copilot_token.
       bind (lift (py_get copilot_data ''expires_at'' (JInt 0))) (\<lambda>expires_at.
       bind (emit (MsgGitHubToken github_token)) (\<lambda>_.
       bind (emit (MsgCopilotToken copilot_token)) (\<lambda>_.
       bind (lift (strftime_localtime localtime expires_at)) (\<lambda>_.
       bind (emit (MsgExpiresAt expires_at)) (\<lambda>_.
       bind (lift (py_slice github_token)) (\<lambda>_.
       bind (emit (MsgUsage github_token)) (\<lambda>_.
       return (Some \<lparr>token = copilot_token, expiresAt = expires_at\<rparr>)))))))))
     else
       bind (emit (MsgExchangeFailed copilot_data)) (\<lambda>_.
       bind (emit (MsgGitHubToken github_token)) (\<lambda>_.
       return None))))"

definition main :: "(rat \<Rightarrow> pyexc option) \<Rightarrow> (json \<times> secondary_token option) prog" where
  "main localtime =
     bind device_flow (\<lambda>github_token.
     bind (main_exchange localtime github_token) (\<lambda>t.
     return (github_token, t)))"

section \<open>get_enterprise_token.py\<close>

definition ent_get_copilot_token :: "json \<Rightarrow> json prog" where
  "ent_get_copilot_token github_token =
     bind (py_format github_token) (\<lambda>tok.
     (let hdrs = [(''Authorization'', ''token '' @ tok),
                  (''Accept'', ''application/json''),
                  (''Content-Type'', ''application/json''),
                  (''User-Agent'', ''GitHubCopilotChat/0.26.7''),
                  (''Editor-Version'', ''vscode/1.85.1'')]
      in bind (https_exchange \<lparr>host = ''api.github.com'', meth = ''POST'',
                                path = ''/copilot_internal/v2/token'', body = None,
                                headers = hdrs\<rparr>)
           (\<lambda>data. if data \<noteq> [] then loads data else return (JObj []))))"

text \<open>
  \<^verbatim>\<open>main\<close> of \<^verbatim>\<open>get_enterprise_token.py\<close> from the exchange on (lines 96 to 142),
  entered with the token that lines 62 to 91 found in the environment, got from
  \<^verbatim>\<open>gh\<close> or read from the terminal: a str. With a \<^verbatim>\<open>token\<close> in the response the
  script reports both tokens: line 110 prints the ends of the GitHub token, line 113 the
  first characters of the Copilot token, and line 115 the expiry through
  \<^verbatim>\<open>time.localtime\<close>; lines 113 and 115 can raise. The files written last (lines 118 to
  133) are not modelled: that step is inside \<^verbatim>\<open>try\<close> and \<^verbatim>\<open>except Exception\<close> and
  cannot end the script. Without a \<^verbatim>\<open>token\<close> the script prints the response and exits
  with status 1 (lines 136 to 142).
\<close>

definition ent_main_exchange :: "(rat \<Rightarrow> pyexc option) \<Rightarrow> string \<Rightarrow> secondary_token prog" where
  "ent_main_exchange localtime github_token =
     bind (ent_get_copilot_token (JStr github_token)) (\<lambda>copilot_data.
     bind (lift (py_contains ''token'' copilot_data)) (\<lambda>has_token.
     if has_token then
       bind (lift (py_getitem copilot_data ''token'')) (\<lambda>copilot_token.
       bind (lift (py_get copilot_data ''expires_at'' (JInt 0))) (\<lambda>expires_at.
       bind (emit (MsgGitHubToken (JStr github_token))) (\<lambda>_.
       bind (lift (py_slice copilot_token)) (\<lambda>_.
       bind (emit (MsgCopilotToken copilot_token)) (\<lambda>_.
       bind (lift (strftime_localtime localtime expires_at)) (\<lambda>_.
       bind (emit (MsgExpiresAt expires_at)) (\<lambda>_.
       return \<lparr>token = copilot_token, expiresAt = expires_at\<rparr>)))))))
     else
       bind (emit (MsgExchangeFailed copilot_data)) (\<lambda>_.
       raise (ExchangeError copilot_data))))"

section \<open>Notions for stating the properties\<close>

text \<open>
  What \<^const>\<open>make_request\<close> returns for the text of a response body, \<open>None\<close> when
  \<^verbatim>\<open>json.loads\<close> raises; and what it returns or raises for a reply.
\<close>

definition response_json :: "world \<Rightarrow> string \<Rightarrow> json option" where
  "response_json w txt = (if txt \<noteq> [] then json_loads w txt else Some (JObj []))"

definition reply_outcome :: "world \<Rightarrow> reply \<Rightarrow> error + json" where
  "reply_outcome w r =
     (case r of
        ConnectionFailed \<Rightarrow> Inl (TransportError ConnectionError)
      | UndecodableBody \<Rightarrow> Inl (TransportError UnicodeDecodeError)
      | Text txt \<Rightarrow>
          (case response_json w txt of
             None \<Rightarrow> Inl (TransportError JSONDecodeError)
           | Some v \<Rightarrow> Inr v))"

text \<open>The three requests of the scripts.\<close>

definition device_code_request :: request where
  "device_code_request =
     \<lparr>host = ''github.com'', meth = ''POST'', path = ''/login/device/code'',
      body = Some (JObj [(''client_id'', JStr CLIENT_ID), (''scope'', JStr SCOPES)]),
      headers = [(''Content-Type'', ''application/json''), (''Accept'', ''application/json'')]\<rparr>"

definition poll_request :: "json \<Rightarrow> request" where
  "poll_request device_code =
     \<lparr>host = ''github.com'', meth = ''POST'', path = ''/login/oauth/access_token'',
      body = Some (JObj [(''client_id'', JStr CLIENT_ID),
                         (''device_code'', device_code),
                         (''grant_type'', JStr ''urn:ietf:params:oauth:grant-type:device_code'')]),
      headers = [(''Content-Type'', ''application/json''), (''Accept'', ''application/json'')]\<rparr>"

definition exchange_request :: "string \<Rightarrow> request" where
  "exchange_request tok =
     \<lparr>host = ''api.github.com'', meth = ''POST'', path = ''/copilot_internal/v2/token'',
      body = None,
      headers = [(''Authorization'', ''token '' @ tok),
                 (''Accept'', ''application/json''),
                 (''Content-Type'', ''application/json''),
                 (''User-Agent'', ''GitHubCopilotChat/0.26.7''),
                 (''Editor-Version'', ''vscode/1.85.1'')]\<rparr>"

text \<open>
  A request whose headers \<^verbatim>\<open>http.client\<close> accepts, an expiry that line 161 can print
  where \<open>localtime\<close> says which numbers \<^verbatim>\<open>time.localtime\<close> refuses, and a value that
  can be sliced.
\<close>

definition sendable :: "request \<Rightarrow> bool" where
  "sendable req = (putheader_error (headers req) = None)"

definition localtime_accepts :: "(rat \<Rightarrow> pyexc option) \<Rightarrow> json \<Rightarrow> bool" where
  "localtime_accepts localtime v = (strftime_localtime localtime v = Inr ())"

definition sliceable :: "json \<Rightarrow> bool" where
  "sliceable v = (py_slice v = Inr ())"

text \<open>The world after one sleep-then-poll cycle: a sleep of \<open>d\<close>, then the poll request.\<close>

definition cycle ::
  "json \<Rightarrow> rat \<Rightarrow> rat \<Rightarrow> (rat \<times> reply) list \<Rightarrow> world \<Rightarrow> world" where
  "cycle device_code d latency rest w =
     exchanged (poll_request device_code) latency rest (slept d w)"

text \<open>How the loop goes on after one pass through its body.\<close>

definition loop_step ::
  "json \<Rightarrow> json \<Rightarrow> json \<Rightarrow> rat \<Rightarrow> ((error + control) \<times> world) option
     \<Rightarrow> ((error + json) \<times> world) option" where
  "loop_step device_code interval expires_in start_time r =
     (case r of
        None \<Rightarrow> None
      | Some (Inl err, w') \<Rightarrow> Some (Inl err, w')
      | Some (Inr (Break github_token), w') \<Rightarrow> Some (Inr github_token, w')
      | Some (Inr Continue, w') \<Rightarrow> poll_loop device_code interval expires_in start_time w')"

text \<open>The loop at its test, for the number \<open>e\<close> that \<^verbatim>\<open>expires_in\<close> stands for.\<close>

definition at_test ::
  "json \<Rightarrow> json \<Rightarrow> json \<Rightarrow> rat \<Rightarrow> rat \<Rightarrow> world \<Rightarrow> ((error + json) \<times> world) option" where
  "at_test device_code interval expires_in start_time e w =
     (if clock w - start_time < e
      then loop_step device_code interval expires_in start_time (loop_body device_code interval w)
      else Some (Inr JNull, w))"

text \<open>The text of a token in the \<^verbatim>\<open>Authorization\<close> header.\<close>

definition token_text :: "world \<Rightarrow> json \<Rightarrow> string" where
  "token_text w v = (case v of JStr s \<Rightarrow> s | _ \<Rightarrow> py_str w v)"

text \<open>
  A poll result that says the user has not authorized yet, and a reply that carries one
  after a time that is not negative.
\<close>

definition pending :: "json \<Rightarrow> bool" where
  "pending v =
     (case v of
        JObj kv \<Rightarrow>
          map_of kv ''access_token'' = None \<and>
          map_of kv ''error'' = Some (JStr ''authorization_pending'')
      | _ \<Rightarrow> False)"

definition pending_reply :: "world \<Rightarrow> rat \<times> reply \<Rightarrow> bool" where
  "pending_reply w lr =
     (case lr of
        (latency, Text txt) \<Rightarrow>
          0 \<le> latency \<and> (case response_json w txt of None \<Rightarrow> False | Some v \<Rightarrow> pending v)
      | _ \<Rightarrow> False)"

text \<open>
  The time the world's replies cover when each comes after a sleep of \<open>d\<close>; and whether
  every sleep of a trace began less than \<open>e\<close> after \<open>start_time\<close>.
\<close>

definition covered :: "rat \<Rightarrow> (rat \<times> reply) list \<Rightarrow> rat" where
  "covered d replies = sum_list (map (\<lambda>lr. d + fst lr) replies)"

fun began_in_time :: "rat \<Rightarrow> rat \<Rightarrow> event \<Rightarrow> bool" where
  "began_in_time e start_time (Slept t d) = (t - start_time < e)"
| "began_in_time e start_time (Request t req) = True"
| "began_in_time e start_time (Printed m) = True"

text \<open>The exception a failed exchange raises out of \<^const>\<open>make_request\<close>.\<close>

fun transport_failure_of :: "reply \<Rightarrow> transport_failure" where
  "transport_failure_of ConnectionFailed = ConnectionError"
| "transport_failure_of UndecodableBody = UnicodeDecodeError"
| "transport_failure_of (Text txt) = JSONDecodeError"

section \<open>Example worlds\<close>

text \<open>Some response bodies and the values \<^verbatim>\<open>json.loads\<close> gives for them.\<close>

definition example_bodies :: "(string \<times> json) list" where
  \<open>example_bodies =
     [(''{"device_code": "dc1", "user_code": "AB-12", "verification_uri": "https://github.com/login/device", "expires_in": 10, "interval": 5}'',
       JObj [(''device_code'', JStr ''dc1''), (''user_code'', JStr ''AB-12''),
             (''verification_uri'', JStr ''https://github.com/login/device''),
             (''expires_in'', JInt 10), (''interval'', JInt 5)]),
      (''{"error": "unauthorized_client"}'', JObj [(''error'', JStr ''unauthorized_client'')]),
      (''{"error": "authorization_pending"}'', JObj [(''error'', JStr ''authorization_pending'')]),
      (''{"error": "access_denied", "error_description": "denied by the user"}'',
       JObj [(''error'', JStr ''access_denied''),
             (''error_description'', JStr ''denied by the user'')]),
      (''{"error": ""}'', JObj [(''error'', JStr [])]),
      (''{"access_token": "gho_abc"}'', JObj [(''access_token'', JStr ''gho_abc'')]),
      (''{"access_token": ""}'', JObj [(''access_token'', JStr [])]),
      (''{"access_token": "gho_abc", "error": "authorization_pending"}'',
       JObj [(''access_token'', JStr ''gho_abc''),
             (''error'', JStr ''authorization_pending'')]),
      (''{}'', JObj []),
      (''{"token": "abc", "expires_at": 1700000000}'',
       JObj [(''token'', JStr ''abc''), (''expires_at'', JInt 1700000000)]),
      (''{"error": "not_authorized"}'', JObj [(''error'', JStr ''not_authorized'')]),
      (''{"token": "abc", "expires_at": "tomorrow"}'',
       JObj [(''token'', JStr ''abc''), (''expires_at'', JStr ''tomorrow'')]),
      (''null'', JNull),
      (''"internal error, retry"'', JStr ''internal error, retry''),
      (''[]'', JArr [])]\<close>

definition example_loads :: "string \<Rightarrow> json option" where
  "example_loads = map_of example_bodies"

text \<open>
  A world whose clock reads 1000 and whose network gives the replies \<open>rs\<close>. No run below
  formats a value that is not a str, and \<open>example_str\<close> stands for \<^verbatim>\<open>str\<close>.
\<close>

definition example_str :: "json \<Rightarrow> string" where
  "example_str v = []"

text \<open>A \<^verbatim>\<open>time.localtime\<close> that refuses the times beyond ten thousand million seconds.\<close>

definition example_localtime :: "rat \<Rightarrow> pyexc option" where
  "example_localtime t = (if \<bar>t\<bar> \<le> 10 ^ 10 then None else Some OverflowError)"

definition example_world :: "(rat \<times> reply) list \<Rightarrow> world" where
  "example_world rs =
     \<lparr>clock = 1000, network = rs, json_loads = example_loads, py_str = example_str,
      trace = []\<rparr>"

section \<open>Running programs\<close>

lemma bind_lift_Inr: "bind (lift (Inr x)) f w = f x w"
  by (simp add: bind_def lift_def)

lemma bind_lift_Inl: "bind (lift (Inl e)) f w = Some (Inl (Uncaught e), w)"
  by (simp add: bind_def lift_def)

lemma bind_emit: "bind (emit m) f w = f () (printed m w)"
  by (simp add: bind_def emit_def)

lemma bind_return: "bind (return x) f w = f x w"
  by (simp add: bind_def return_def)

lemma bind_raise: "bind (raise e) f w = Some (Inl e, w)"
  by (simp add: bind_def raise_def)

lemma bind_time_time: "bind time_time f w = f (clock w) w"
  by (simp add: bind_def time_time_def)

lemma bind_py_format: "bind (py_format v) f w = f (token_text w v) w"
  by (simp add: bind_def py_format_def token_text_def)

lemma bind_result:
  "m w = Some (r, w') \<Longrightarrow>
   bind m f w = (case r of Inl e \<Rightarrow> Some (Inl e, w') | Inr x \<Rightarrow> f x w')"
  by (simp add: bind_def split: sum.splits)

lemmas run_simps = bind_lift_Inr bind_lift_Inl bind_emit bind_return bind_raise bind_time_time
  bind_py_format

lemma json_loads_exchanged: "json_loads (exchanged req lat rest w) = json_loads w"
  by (simp add: exchanged_def)

lemma response_json_slept: "response_json (slept d w) = response_json w"
  by (rule ext) (simp add: response_json_def slept_def)

lemma reply_outcome_slept: "reply_outcome (slept d w) r = reply_outcome w r"
  by (cases r) (simp_all add: reply_outcome_def response_json_slept)

lemma network_slept: "network (slept d w) = network w"
  by (simp add: slept_def)

lemma py_less_number: "py_number v = Some e \<Longrightarrow> py_less x v = Inr (x < e)"
  by (cases v) auto

lemma sleep_seconds_number:
  "py_number interval = Some d \<Longrightarrow> 0 \<le> d \<Longrightarrow> d \<le> sleep_max \<Longrightarrow>
   sleep_seconds interval = Inr d"
  by (cases interval) (auto simp: sleep_min_def)

lemma make_request_run:
  assumes "network w = (lat, r) # rest"
    and "putheader_error (case hs of
                        None \<Rightarrow> [(''Content-Type'', ''application/json''),
                                 (''Accept'', ''application/json'')]
                      | Some h' \<Rightarrow> h') = None"
  shows "make_request h p data hs m w =
    Some (reply_outcome w r,
          exchanged \<lparr>host = h, meth = (case m of None \<Rightarrow> ''POST'' | Some m' \<Rightarrow> m'),
                     path = p,
                     body = (case data of None \<Rightarrow> None
                             | Some d \<Rightarrow> if py_truthy d then Some d else None),
                     headers = (case hs of
                        None \<Rightarrow> [(''Content-Type'', ''application/json''),
                                 (''Accept'', ''application/json'')]
                      | Some h' \<Rightarrow> h')\<rparr> lat rest w)"
  using assms
  by (cases r)
     (auto simp: make_request_def bind_def https_exchange_def loads_def return_def
        reply_outcome_def response_json_def json_loads_exchanged Let_def
      split: option.splits)

lemma poll_for_token_run:
  "network w = (lat, r) # rest \<Longrightarrow>
   poll_for_token dc w = Some (reply_outcome w r, exchanged (poll_request dc) lat rest w)"
  by (simp add: poll_for_token_def make_request_run poll_request_def latin1_def)

lemma start_request_run:
  "network w = (lat, r) # rest \<Longrightarrow>
   make_request ''github.com'' ''/login/device/code''
             (Some (JObj [(''client_id'', JStr CLIENT_ID), (''scope'', JStr SCOPES)]))
             None None w = Some (reply_outcome w r, exchanged device_code_request lat rest w)"
  by (simp add: make_request_run device_code_request_def latin1_def)

lemma get_copilot_token_run:
  "network w = (lat, r) # rest \<Longrightarrow>
   sendable (exchange_request (token_text w github_token)) \<Longrightarrow>
   get_copilot_token github_token w =
     Some (reply_outcome w r,
           exchanged (exchange_request (token_text w github_token)) lat rest w)"
  by (simp add: get_copilot_token_def bind_py_format make_request_run exchange_request_def
        sendable_def)

lemma time_sleep_run:
  "sleep_seconds interval = Inr d \<Longrightarrow> time_sleep interval w = Some (Inr (), slept d w)"
  by (simp add: time_sleep_def)

lemma loop_body_slept:
  assumes "network w = (lat, r) # rest" and "sleep_seconds interval = Inr d"
  shows "loop_body dc interval w =
    (case reply_outcome w r of
       Inl err \<Rightarrow> Some (Inl err, cycle dc d lat rest w)
     | Inr result \<Rightarrow> handle_result result (cycle dc d lat rest w))"
proof -
  have "network (slept d w) = (lat, r) # rest"
    using assms(1) by (simp add: network_slept)
  then have "poll_for_token dc (slept d w) =
      Some (reply_outcome w r, cycle dc d lat rest w)"
    by (simp add: poll_for_token_run reply_outcome_slept cycle_def)
  then show ?thesis
    using assms(2)
    by (simp add: loop_body_def bind_result [OF time_sleep_run] bind_result)
qed

lemma loop_body_run:
  assumes "network w = (lat, r) # rest" and "py_number interval = Some d" and "0 \<le> d"
    and "d \<le> sleep_max"
  shows "loop_body dc interval w =
    (case reply_outcome w r of
       Inl err \<Rightarrow> Some (Inl err, cycle dc d lat rest w)
     | Inr result \<Rightarrow> handle_result result (cycle dc d lat rest w))"
  using assms by (simp add: loop_body_slept sleep_seconds_number)

lemma handle_result_dict:
  "handle_result (JObj kv) w =
     (case map_of kv ''access_token'' of
        Some github_token \<Rightarrow> Some (Inr (Break github_token), printed MsgTokenReceived w)
      | None \<Rightarrow>
          (case map_of kv ''error'' of
             None \<Rightarrow> Some (Inr Continue, w)
           | Some err \<Rightarrow>
               if err = JStr ''authorization_pending'' then Some (Inr Continue, printed MsgDot w)
               else if py_truthy err then
                 (case map_of kv ''error_description'' of
                    None \<Rightarrow> Some (Inl (AuthorizationError err), printed (MsgError err) w)
                  | Some description \<Rightarrow>
                      Some (Inl (AuthorizationError description),
                            printed (MsgError description) w))
               else Some (Inr Continue, w)))"
  by (simp add: handle_result_def run_simps return_def raise_def split: option.splits)

lemma poll_loop_at_test:
  "py_number expires_in = Some e \<Longrightarrow>
   poll_loop dc interval expires_in start_time w = at_test dc interval expires_in start_time e w"
  by (simp add: poll_loop.simps [of _ _ _ _ w] loop_step_def at_test_def py_less_number)

lemma ent_get_copilot_token_run:
  "network w = (lat, r) # rest \<Longrightarrow>
   sendable (exchange_request (token_text w github_token)) \<Longrightarrow>
   ent_get_copilot_token github_token w =
     Some (reply_outcome w r,
           exchanged (exchange_request (token_text w github_token)) lat rest w)"
  by (cases r)
     (auto simp: ent_get_copilot_token_def py_format_def token_text_def bind_def
        https_exchange_def loads_def return_def reply_outcome_def response_json_def
        json_loads_exchanged exchange_request_def sendable_def Let_def
      split: option.splits)

lemma reply_outcome_Text:
  "response_json w txt = Some v \<Longrightarrow> reply_outcome w (Text txt) = Inr v"
  by (simp add: reply_outcome_def)

lemma start_device_flow_run:
  assumes "network w = (lat, Text txt) # rest" and "response_json w txt = Some (JObj kv)"
  shows "start_device_flow w =
    (if map_of kv ''error'' \<noteq> None
     then Some (Inl (AuthServerError (JObj kv)),
                printed (MsgDeviceError (JObj kv)) (exchanged device_code_request lat rest w))
     else Some (Inr (JObj kv), exchanged device_code_request lat rest w))"
  using assms
  by (simp add: start_device_flow_def bind_result [OF start_request_run] reply_outcome_Text
        run_simps raise_def return_def)

lemma main_start_fails:
  "start_device_flow w = Some (Inl err, w') \<Longrightarrow> main localtime w = Some (Inl err, w')"
  by (simp add: main_def device_flow_def bind_def)

lemma timeout_check_run:
  "timeout_check github_token w =
     (if py_truthy github_token then Some (Inr github_token, w)
      else Some (Inl TimeoutError, printed MsgTimeout w))"
  by (simp add: timeout_check_def run_simps return_def raise_def)

lemma polling_result:
  "poll_loop dc i x s w = Some (r, w') \<Longrightarrow>
   polling dc i x s w =
     (case r of Inl err \<Rightarrow> Some (Inl err, w')
      | Inr github_token \<Rightarrow> timeout_check github_token w')"
  by (simp add: polling_def bind_result)

lemma loop_body_dict:
  assumes "network w = (lat, Text txt) # rest" and "response_json w txt = Some result"
    and "py_number interval = Some d" and "0 \<le> d" and "d \<le> sleep_max"
  shows "loop_body dc interval w = handle_result result (cycle dc d lat rest w)"
  using assms by (simp add: loop_body_run reply_outcome_Text)

lemma poll_loop_reply:
  assumes "network w = (lat, Text txt) # rest" and "response_json w txt = Some result"
    and "py_number interval = Some d" and "0 \<le> d" and "d \<le> sleep_max"
    and "py_number expires_in = Some e" and "clock w - start_time < e"
  shows "poll_loop dc interval expires_in start_time w =
           loop_step dc interval expires_in start_time
             (handle_result result (cycle dc d lat rest w))"
  using assms by (simp add: poll_loop_at_test at_test_def loop_body_dict)

text \<open>The body of the loop and the loop in every case, for evaluating closed runs.\<close>

lemma loop_body_eval:
  "loop_body dc interval w =
     (case sleep_seconds interval of
        Inl e \<Rightarrow> Some (Inl (Uncaught e), w)
      | Inr d \<Rightarrow>
          (case network w of
             [] \<Rightarrow> None
           | (lat, r) # rest \<Rightarrow>
               (case reply_outcome w r of
                  Inl err \<Rightarrow> Some (Inl err, cycle dc d lat rest w)
                | Inr result \<Rightarrow> handle_result result (cycle dc d lat rest w))))"
proof (cases "sleep_seconds interval")
  case (Inl e)
  then show ?thesis by (simp add: loop_body_def bind_def time_sleep_def)
next
  case (Inr d)
  show ?thesis
  proof (cases "network w")
    case Nil
    with Inr show ?thesis
      by (simp add: loop_body_def bind_def time_sleep_def poll_for_token_def make_request_def
            https_exchange_def network_slept latin1_def Let_def)
  next
    case (Cons lr rest)
    obtain lat r where "lr = (lat, r)" by (cases lr)
    with Cons Inr show ?thesis by (simp add: loop_body_slept)
  qed
qed

lemma poll_loop_eval:
  "poll_loop dc interval expires_in start_time w =
     (case py_less (clock w - start_time) expires_in of
        Inl e \<Rightarrow> Some (Inl (Uncaught e), w)
      | Inr in_time \<Rightarrow>
          if in_time
          then loop_step dc interval expires_in start_time (loop_body dc interval w)
          else Some (Inr JNull, w))"
  by (simp add: poll_loop.simps [of _ _ _ _ w] loop_step_def split: sum.splits)

lemmas eval_simps = poll_loop_eval at_test_def loop_step_def loop_body_eval handle_result_dict
  polling_def bind_def timeout_check_run reply_outcome_def response_json_def cycle_def
  exchanged_def slept_def printed_def poll_request_def sleep_max_def sleep_min_def
  example_world_def example_loads_def example_bodies_def

text \<open>Step 2 of \<^verbatim>\<open>main\<close> starts the loop with the clock's reading as \<open>start_time\<close>.\<close>

lemma poll_until_authorized_run:
  assumes "map_of dd ''device_code'' = Some dc"
  shows "poll_until_authorized (JObj dd) w =
    polling dc (case map_of dd ''interval'' of None \<Rightarrow> JInt 5 | Some i \<Rightarrow> i)
      (case map_of dd ''expires_in'' of None \<Rightarrow> JInt 900 | Some x \<Rightarrow> x) (clock w) w"
  using assms by (simp add: poll_until_authorized_def run_simps)

lemma make_request_eval:
  assumes "putheader_error (case hs of
                      None \<Rightarrow> [(''Content-Type'', ''application/json''),
                               (''Accept'', ''application/json'')]
                    | Some h' \<Rightarrow> h') = None"
  shows "make_request h p data hs m w =
     (case network w of
        [] \<Rightarrow> None
      | (lat, r) # rest \<Rightarrow>
          Some (reply_outcome w r,
                exchanged \<lparr>host = h, meth = (case m of None \<Rightarrow> ''POST'' | Some m' \<Rightarrow> m'),
                           path = p,
                           body = (case data of None \<Rightarrow> None
                                   | Some d \<Rightarrow> if py_truthy d then Some d else None),
                           headers = (case hs of
                              None \<Rightarrow> [(''Content-Type'', ''application/json''),
                                       (''Accept'', ''application/json'')]
                            | Some h' \<Rightarrow> h')\<rparr> lat rest w))"
proof (cases "network w")
  case Nil
  with assms show ?thesis
    by (simp add: make_request_def bind_def https_exchange_def Let_def)
next
  case (Cons lr rest)
  obtain lat r where "lr = (lat, r)" by (cases lr)
  with Cons assms show ?thesis by (simp add: make_request_run)
qed

text \<open>
  A whole run of \<^verbatim>\<open>main\<close>: the device code, one poll before the user has authorized,
  one after, and the exchange.
\<close>

lemma main_example:
  \<open>main example_localtime (example_world
      [(1, Text ''{"device_code": "dc1", "user_code": "AB-12", "verification_uri": "https://github.com/login/device", "expires_in": 10, "interval": 5}''),
       (1, Text ''{"error": "authorization_pending"}''),
       (1, Text ''{"access_token": "gho_abc"}''),
       (1, Text ''{"token": "abc", "expires_at": 1700000000}'')]) =
   Some (Inr (JStr ''gho_abc'', Some \<lparr>token = JStr ''abc'', expiresAt = JInt 1700000000\<rparr>),
         \<lparr>clock = 1014, network = [], json_loads = example_loads, py_str = example_str,
          trace = [Request 1000 device_code_request,
                   Printed (MsgVisit (JStr ''https://github.com/login/device'')),
                   Printed (MsgCode (JStr ''AB-12'')),
                   Printed (MsgExpires (JInt 10)),
                   Slept 1001 5, Request 1006 (poll_request (JStr ''dc1'')), Printed MsgDot,
                   Slept 1007 5, Request 1012 (poll_request (JStr ''dc1'')),
                   Printed MsgTokenReceived,
                   Request 1013 (exchange_request ''gho_abc''),
                   Printed (MsgGitHubToken (JStr ''gho_abc'')),
                   Printed (MsgCopilotToken (JStr ''abc'')),
                   Printed (MsgExpiresAt (JInt 1700000000)),
                   Printed (MsgUsage (JStr ''gho_abc''))]\<rparr>)\<close>
  by (simp add: main_def device_flow_def start_device_flow_def poll_until_authorized_def
        main_exchange_def get_copilot_token_def make_request_eval eval_simps latin1_def
        lift_def emit_def return_def raise_def time_time_def py_format_def
        example_localtime_def
        device_code_request_def exchange_request_def CLIENT_ID_def SCOPES_def)

text \<open>Runs over replies that all say the user has not authorized yet.\<close>

lemma pending_reply_cong:
  "json_loads w' = json_loads w \<Longrightarrow> pending_reply w' = pending_reply w"
  by (rule ext) (simp add: pending_reply_def response_json_def split: prod.splits reply.splits)

lemma pending_replyD:
  assumes "pending_reply w (lat, r)"
  shows "\<exists>body_text kv. r = Text body_text \<and> 0 \<le> lat \<and>
    response_json w body_text = Some (JObj kv) \<and>
    map_of kv ''access_token'' = None \<and>
    map_of kv ''error'' = Some (JStr ''authorization_pending'')"
  using assms
  by (auto simp: pending_reply_def pending_def split: reply.splits option.splits json.splits)

lemma covered_Cons: "covered d ((lat, r) # rest) = d + lat + covered d rest"
  by (simp add: covered_def)

lemma pending_run:
  assumes iv: "py_number interval = Some d" "0 \<le> d" "d \<le> sleep_max"
    and ex: "py_number expires_in = Some e"
  shows "network w = rs \<Longrightarrow> list_all (pending_reply w) rs \<Longrightarrow>
         e - (clock w - start_time) \<le> covered d rs \<Longrightarrow>
         \<exists>w' new. poll_loop dc interval expires_in start_time w = Some (Inr JNull, w') \<and>
           trace w' = trace w @ new \<and> list_all (began_in_time e start_time) new \<and>
           e \<le> clock w' - start_time"
proof (induction rs arbitrary: w)
  case Nil
  then have "e \<le> clock w - start_time"
    by (simp add: covered_def)
  then have "poll_loop dc interval expires_in start_time w = Some (Inr JNull, w)"
    using ex by (simp add: poll_loop_at_test at_test_def)
  with \<open>e \<le> clock w - start_time\<close> show ?case
    by (intro exI [of _ w] exI [of _ "[]"]) simp
next
  case (Cons lr rest)
  show ?case
  proof (cases "clock w - start_time < e")
    case False
    then have "poll_loop dc interval expires_in start_time w = Some (Inr JNull, w)"
      using ex by (simp add: poll_loop_at_test at_test_def)
    with False show ?thesis
      by (intro exI [of _ w] exI [of _ "[]"]) simp
  next
    case True
    obtain lat r where lr: "lr = (lat, r)"
      by (cases lr)
    from Cons.prems(2) lr have "pending_reply w (lat, r)"
      by simp
    then obtain body_text kv where r: "r = Text body_text" and lat: "0 \<le> lat"
      and body: "response_json w body_text = Some (JObj kv)"
      and no_token: "map_of kv ''access_token'' = None"
      and err: "map_of kv ''error'' = Some (JStr ''authorization_pending'')"
      using pending_replyD by blast
    define w3 where "w3 = printed MsgDot (cycle dc d lat rest w)"
    have net: "network w = (lat, Text body_text) # rest"
      using Cons.prems(1) lr r by simp
    have step: "poll_loop dc interval expires_in start_time w =
        poll_loop dc interval expires_in start_time w3"
      using net body no_token err iv ex True
      by (simp add: poll_loop_reply handle_result_dict loop_step_def w3_def)
    have net3: "network w3 = rest"
      by (simp add: w3_def printed_def cycle_def exchanged_def)
    have loads3: "json_loads w3 = json_loads w"
      by (simp add: w3_def printed_def cycle_def exchanged_def slept_def)
    have clock3: "clock w3 = clock w + d + lat"
      by (simp add: w3_def printed_def cycle_def exchanged_def slept_def)
    have trace3: "trace w3 = trace w @ [Slept (clock w) d,
        Request (clock w + d) (poll_request dc), Printed MsgDot]"
      by (simp add: w3_def printed_def cycle_def exchanged_def slept_def)
    have pend3: "list_all (pending_reply w3) rest"
      using Cons.prems(2) by (simp add: pending_reply_cong [OF loads3])
    have cov3: "e - (clock w3 - start_time) \<le> covered d rest"
      using Cons.prems(3) lr by (simp add: covered_Cons clock3)
    from Cons.IH [OF net3 pend3 cov3] obtain w' new where
      run: "poll_loop dc interval expires_in start_time w3 = Some (Inr JNull, w')" and
      tr: "trace w' = trace w3 @ new" and
      ok: "list_all (began_in_time e start_time) new" and
      late: "e \<le> clock w' - start_time"
      by blast
    let ?new = "[Slept (clock w) d, Request (clock w + d) (poll_request dc), Printed MsgDot] @ new"
    have tr': "trace w' = trace w @ ?new"
      using tr trace3 by simp
    have ok': "list_all (began_in_time e start_time) ?new"
      using ok True by simp
    have run': "poll_loop dc interval expires_in start_time w = Some (Inr JNull, w')"
      using step run by simp
    from run' tr' ok' late show ?thesis
      by (intro exI [of _ w'] exI [of _ ?new] conjI)
  qed
qed

text \<open>In every run of the loop, every sleep began at a test that read less than \<open>e\<close>.\<close>

lemma handle_result_trace:
  assumes "handle_result result w = Some (x, w1)"
  shows "\<exists>ms. trace w1 = trace w @ map Printed ms"
proof -
  have "trace w1 = trace w @ map Printed [] \<or>
        (\<exists>m. trace w1 = trace w @ map Printed [m])"
    using assms
    by (auto simp: handle_result_def bind_def lift_def emit_def return_def raise_def
          printed_def split: sum.splits if_splits)
  then show ?thesis by blast
qed

lemma began_in_time_Printed: "list_all (began_in_time e s) (map Printed ms)"
  by (induction ms) simp_all

lemma loop_body_trace:
  assumes "loop_body dc interval w = Some (x, w1)" and "clock w - start_time < e"
  shows "\<exists>new. trace w1 = trace w @ new \<and> list_all (began_in_time e start_time) new"
proof (cases "sleep_seconds interval")
  case (Inl exc)
  with assms(1) have "w1 = w"
    by (simp add: loop_body_eval)
  then show ?thesis by simp
next
  case (Inr d)
  note secs = this
  with assms(1) obtain lat r rest where net: "network w = (lat, r) # rest"
    by (cases "network w") (auto simp: loop_body_eval)
  let ?w2 = "cycle dc d lat rest w"
  have tr2: "trace ?w2 = trace w @ [Slept (clock w) d, Request (clock w + d) (poll_request dc)]"
    by (simp add: cycle_def exchanged_def slept_def)
  show ?thesis
  proof (cases "reply_outcome w r")
    case (Inl err)
    with secs net assms(1) have "w1 = ?w2"
      by (simp add: loop_body_eval)
    with tr2 assms(2) show ?thesis by simp
  next
    case (Inr result)
    with secs net assms(1) have "handle_result result ?w2 = Some (x, w1)"
      by (simp add: loop_body_eval)
    then obtain ms where "trace w1 = trace ?w2 @ map Printed ms"
      using handle_result_trace by blast
    with tr2 have "trace w1 = trace w @
        ([Slept (clock w) d, Request (clock w + d) (poll_request dc)] @ map Printed ms)"
      by simp
    moreover have "list_all (began_in_time e start_time)
        ([Slept (clock w) d, Request (clock w + d) (poll_request dc)] @ map Printed ms)"
      using assms(2) by (simp add: began_in_time_Printed)
    ultimately show ?thesis by blast
  qed
qed

lemma poll_loop_trace:
  "poll_loop dc interval expires_in start_time w = Some (r, w') \<Longrightarrow>
   py_number expires_in = Some e \<Longrightarrow>
   \<exists>new. trace w' = trace w @ new \<and> list_all (began_in_time e start_time) new"
proof (induction dc interval expires_in start_time w rule: poll_loop.induct)
  case (1 dc interval expires_in start_time w)
  note ex = \<open>py_number expires_in = Some e\<close>
  show ?case
  proof (cases "clock w - start_time < e")
    case False
    with "1.prems" have "w' = w"
      by (simp add: poll_loop_at_test at_test_def)
    then show ?thesis by simp
  next
    case True
    from "1.prems"(1) ex True
    have step: "loop_step dc interval expires_in start_time (loop_body dc interval w) = Some (r, w')"
      by (simp add: poll_loop_at_test at_test_def)
    then obtain x w1 where body: "loop_body dc interval w = Some (x, w1)"
      by (cases "loop_body dc interval w") (auto simp: loop_step_def)
    from loop_body_trace [OF body True] obtain new1 where
      tr1: "trace w1 = trace w @ new1" and ok1: "list_all (began_in_time e start_time) new1"
      by blast
    show ?thesis
    proof (cases x)
      case (Inl err)
      with step body have "w' = w1"
        by (simp add: loop_step_def)
      with tr1 ok1 show ?thesis by blast
    next
      case (Inr c)
      show ?thesis
      proof (cases c)
        case (Break github_token)
        with Inr step body have "w' = w1"
          by (simp add: loop_step_def)
        with tr1 ok1 show ?thesis by blast
      next
        case Continue
        with Inr step body
        have rec: "poll_loop dc interval expires_in start_time w1 = Some (r, w')"
          by (simp add: loop_step_def)
        from ex True have "py_less (clock w - start_time) expires_in = Inr True"
          by (simp add: py_less_number)
        from "1.IH" [OF this _ body refl Inr Continue rec ex] obtain new2 where
          tr2: "trace w' = trace w1 @ new2" and
          ok2: "list_all (began_in_time e start_time) new2"
          by blast
        from tr1 tr2 have "trace w' = trace w @ (new1 @ new2)"
          by simp
        moreover from ok1 ok2 have "list_all (began_in_time e start_time) (new1 @ new2)"
          by simp
        ultimately show ?thesis by blast
      qed
    qed
  qed
qed

lemma polling_trace:
  assumes "polling dc interval expires_in start_time w = Some (r, w')"
    and "py_number expires_in = Some e"
  shows "\<exists>new. trace w' = trace w @ new \<and> list_all (began_in_time e start_time) new"
proof -
  from assms(1) obtain r1 w1 where
    loop: "poll_loop dc interval expires_in start_time w = Some (r1, w1)"
    by (cases "poll_loop dc interval expires_in start_time w") (auto simp: polling_def bind_def)
  from poll_loop_trace [OF loop assms(2)] obtain new1 where
    tr1: "trace w1 = trace w @ new1" and ok1: "list_all (began_in_time e start_time) new1"
    by blast
  from assms(1) loop have "w' = w1 \<or> w' = printed MsgTimeout w1"
    by (auto simp: polling_result timeout_check_run split: sum.splits if_splits)
  then show ?thesis
  proof
    assume "w' = w1"
    with tr1 ok1 show ?thesis by blast
  next
    assume "w' = printed MsgTimeout w1"
    with tr1 have "trace w' = trace w @ (new1 @ [Printed MsgTimeout])"
      by (simp add: printed_def)
    moreover from ok1 have "list_all (began_in_time e start_time) (new1 @ [Printed MsgTimeout])"
      by simp
    ultimately show ?thesis by blast
  qed
qed

section \<open>The start of the device flow\<close>

text \<open>
  C6, for responses that are JSON objects. When the response to the device-code request
  is a JSON object with an \<^verbatim>\<open>error\<close> field, \<^verbatim>\<open>start_device_flow\<close> prints it and
  exits (the error of the authorization server), and so does \<^verbatim>\<open>main\<close>: the only
  request of the run is the device-code request, and no reply after the first is used, so
  nothing is retried and no poll is sent. When the object has no \<^verbatim>\<open>error\<close> field,
  \<^verbatim>\<open>start_device_flow\<close> returns it as it is.
\<close>

theorem start_device_flow_error:
  assumes "network w = (lat, Text txt) # rest" and "response_json w txt = Some (JObj kv)"
  shows "start_device_flow w =
           (if map_of kv ''error'' \<noteq> None
            then Some (Inl (AuthServerError (JObj kv)),
                       printed (MsgDeviceError (JObj kv))
                         (exchanged device_code_request lat rest w))
            else Some (Inr (JObj kv), exchanged device_code_request lat rest w)) \<and>
         (map_of kv ''error'' \<noteq> None \<longrightarrow>
            main localtime w = Some (Inl (AuthServerError (JObj kv)),
                           printed (MsgDeviceError (JObj kv))
                             (exchanged device_code_request lat rest w)))"
proof -
  note run = start_device_flow_run [OF assms]
  have "main localtime w = Some (Inl (AuthServerError (JObj kv)),
          printed (MsgDeviceError (JObj kv)) (exchanged device_code_request lat rest w))"
    if "map_of kv ''error'' \<noteq> None"
    using that run by (intro main_start_fails) simp
  with run show ?thesis by blast
qed

theorem start_device_flow_error_witness:
  \<open>main example_localtime
     (example_world [(1, Text ''{"error": "unauthorized_client"}''),
                        (1, Text ''{"access_token": "gho_abc"}'')]) =
   Some (Inl (AuthServerError (JObj [(''error'', JStr ''unauthorized_client'')])),
         \<lparr>clock = 1001, network = [(1, Text ''{"access_token": "gho_abc"}'')],
          json_loads = example_loads, py_str = example_str,
          trace = [Request 1000 device_code_request,
                   Printed (MsgDeviceError (JObj [(''error'', JStr ''unauthorized_client'')]))]\<rparr>) \<and>
   start_device_flow (example_world [(1, Text ''{}'')]) =
   Some (Inr (JObj []),
         \<lparr>clock = 1001, network = [], json_loads = example_loads, py_str = example_str,
          trace = [Request 1000 device_code_request]\<rparr>)\<close>
  using start_device_flow_error
    [of \<open>example_world [(1, Text ''{"error": "unauthorized_client"}''),
                        (1, Text ''{"access_token": "gho_abc"}'')]\<close>
        1 \<open>''{"error": "unauthorized_client"}''\<close> \<open>[(1, Text ''{"access_token": "gho_abc"}'')]\<close>
        \<open>[(''error'', JStr ''unauthorized_client'')]\<close>]
    start_device_flow_error
    [of \<open>example_world [(1, Text ''{}'')]\<close> 1 \<open>''{}''\<close> \<open>[]\<close> \<open>[]\<close>]
  by (simp add: example_world_def response_json_def example_loads_def example_bodies_def
        exchanged_def printed_def)

text \<open>
  For a response that is no JSON object the property fails. The test
  \<^verbatim>\<open>"error" in data\<close> (line 57) is then no test for a field. For the response
  \<^verbatim>\<open>null\<close>, which has no \<^verbatim>\<open>error\<close> field, it raises a \<^verbatim>\<open>TypeError\<close>: the script
  neither returns the response nor exits with the server's error. For the JSON string
  \<^verbatim>\<open>"internal error, retry"\<close>, which has no field either, it is a substring test that
  succeeds: the script exits with the server's error and does not return the response.
\<close>

theorem device_response_not_object_counterexample:
  \<open>start_device_flow (example_world [(1, Text ''null'')]) =
   Some (Inl (Uncaught TypeError),
         \<lparr>clock = 1001, network = [], json_loads = example_loads, py_str = example_str,
          trace = [Request 1000 device_code_request]\<rparr>) \<and>
   start_device_flow (example_world [(1, Text ''"internal error, retry"'')]) =
   Some (Inl (AuthServerError (JStr ''internal error, retry'')),
         \<lparr>clock = 1001, network = [], json_loads = example_loads, py_str = example_str,
          trace = [Request 1000 device_code_request,
                   Printed (MsgDeviceError (JStr ''internal error, retry''))]\<rparr>)\<close>
  by (simp add: start_device_flow_def make_request_eval latin1_def bind_def lift_def emit_def
        raise_def return_def reply_outcome_def response_json_def exchanged_def printed_def
        device_code_request_def example_world_def example_loads_def example_bodies_def
        sublist_code prefix_code)

section \<open>The polling loop\<close>

text \<open>
  In the theorems of this section about a poll response, the loop is in a pass through
  its body: the interval is a number \<open>d\<close> that \<^verbatim>\<open>time.sleep\<close> accepts (not negative,
  and at most \<^const>\<open>sleep_max\<close>; for any other interval the sleep raises and the run ends
  before a poll is sent), \<^verbatim>\<open>expires_in\<close> is a number \<open>e\<close>, and the test of the loop
  has just read less than \<open>e\<close> seconds since \<open>start_time\<close>. The world after the pass is
  \<^const>\<open>cycle\<close>: the sleep and the poll request are added to its trace, and the replies
  after this one are left.
\<close>

text \<open>
  C3, with the condition that the token is truthy. When the poll response is a JSON
  object with an \<^verbatim>\<open>access_token\<close> field, the loop ends in that pass with the value of
  the field, unchanged, in \<^verbatim>\<open>github_token\<close>: after the sleep and the poll nothing
  but the line that reports the token is added to the trace, and the replies after this
  one are left unused. When the value is truthy, the test after the loop returns it.
\<close>

theorem access_token_ends_polling:
  assumes "network w = (lat, Text txt) # rest"
    and "response_json w txt = Some (JObj kv)"
    and "map_of kv ''access_token'' = Some github_token"
    and "py_number interval = Some d" and "0 \<le> d" and "d \<le> sleep_max"
    and "py_number expires_in = Some e" and "clock w - start_time < e"
  shows "poll_loop dc interval expires_in start_time w =
           Some (Inr github_token, printed MsgTokenReceived (cycle dc d lat rest w)) \<and>
         (py_truthy github_token \<longrightarrow>
            polling dc interval expires_in start_time w =
              Some (Inr github_token, printed MsgTokenReceived (cycle dc d lat rest w)))"
proof -
  have loop: "poll_loop dc interval expires_in start_time w =
      Some (Inr github_token, printed MsgTokenReceived (cycle dc d lat rest w))"
    using assms by (simp add: poll_loop_reply handle_result_dict loop_step_def)
  then show ?thesis
    by (simp add: polling_result timeout_check_run)
qed

theorem access_token_ends_polling_witness:
  \<open>polling (JStr ''dc1'') (JInt 5) (JInt 10) 1000
     (example_world [(1, Text ''{"access_token": "gho_abc"}''),
                     (1, Text ''{"error": "authorization_pending"}'')]) =
   Some (Inr (JStr ''gho_abc''),
         \<lparr>clock = 1006, network = [(1, Text ''{"error": "authorization_pending"}'')],
          json_loads = example_loads, py_str = example_str,
          trace = [Slept 1000 5, Request 1005 (poll_request (JStr ''dc1'')),
                   Printed MsgTokenReceived]\<rparr>)\<close>
  using access_token_ends_polling
    [of \<open>example_world [(1, Text ''{"access_token": "gho_abc"}''),
                        (1, Text ''{"error": "authorization_pending"}'')]\<close>
        1 \<open>''{"access_token": "gho_abc"}''\<close> \<open>[(1, Text ''{"error": "authorization_pending"}'')]\<close>
        \<open>[(''access_token'', JStr ''gho_abc'')]\<close> \<open>JStr ''gho_abc''\<close>
        \<open>JInt 5\<close> 5 \<open>JInt 10\<close> 10 1000 \<open>JStr ''dc1''\<close>]
  by (simp add: example_world_def response_json_def example_loads_def example_bodies_def
        cycle_def exchanged_def slept_def printed_def sleep_max_def)

text \<open>
  Without the condition the property fails. The response \<^verbatim>\<open>{"access_token": ""}\<close>
  ends the loop, the line that reports a token is printed, and the test after the loop
  then takes the empty token for none: the run ends as a timeout, and no token is
  returned.
\<close>

theorem falsy_access_token_counterexample:
  \<open>polling (JStr ''dc1'') (JInt 5) (JInt 10) 1000
     (example_world [(1, Text ''{"access_token": ""}'')]) =
   Some (Inl TimeoutError,
         \<lparr>clock = 1006, network = [], json_loads = example_loads, py_str = example_str,
          trace = [Slept 1000 5, Request 1005 (poll_request (JStr ''dc1'')),
                   Printed MsgTokenReceived, Printed MsgTimeout]\<rparr>)\<close>
  by (simp add: eval_simps)

text \<open>
  C1, for responses without a token, for error values that are truthy, and with the
  test of the loop between two passes. Let the poll response be a JSON object without
  an \<^verbatim>\<open>access_token\<close> field and with an \<^verbatim>\<open>error\<close> field. If the error is
  \<^verbatim>\<open>authorization_pending\<close>, the loop
  prints a dot and is back at its test: one more sleep-then-poll pass follows if the
  elapsed time read there is less than \<^verbatim>\<open>expires_in\<close>, and the loop ends there
  otherwise. If the error is any other truthy value, the script exits at once with the
  authorization error that carries the response's \<^verbatim>\<open>error_description\<close>, or the error
  value itself when the response has no description; no sleep or poll follows. If the
  error is falsy (empty, null, zero or false), the loop is back at its test with nothing
  printed.
\<close>

theorem poll_error_handling:
  assumes "network w = (lat, Text txt) # rest"
    and "response_json w txt = Some (JObj kv)"
    and "map_of kv ''access_token'' = None"
    and "map_of kv ''error'' = Some err"
    and "py_number interval = Some d" and "0 \<le> d" and "d \<le> sleep_max"
    and "py_number expires_in = Some e" and "clock w - start_time < e"
  shows "poll_loop dc interval expires_in start_time w =
           (if err = JStr ''authorization_pending''
            then at_test dc interval expires_in start_time e
                   (printed MsgDot (cycle dc d lat rest w))
            else if py_truthy err
            then Some (Inl (AuthorizationError
                              (case map_of kv ''error_description'' of
                                 None \<Rightarrow> err | Some description \<Rightarrow> description)),
                       printed (MsgError
                              (case map_of kv ''error_description'' of
                                 None \<Rightarrow> err | Some description \<Rightarrow> description))
                         (cycle dc d lat rest w))
            else at_test dc interval expires_in start_time e (cycle dc d lat rest w))"
  using assms
  by (simp add: poll_loop_reply handle_result_dict loop_step_def poll_loop_at_test
        split: option.splits)

theorem poll_error_handling_witness:
  \<open>poll_loop (JStr ''dc1'') (JInt 5) (JInt 10) 1000
     (example_world
        [(1, Text ''{"error": "access_denied", "error_description": "denied by the user"}''),
         (1, Text ''{"access_token": "gho_abc"}'')]) =
   Some (Inl (AuthorizationError (JStr ''denied by the user'')),
         \<lparr>clock = 1006, network = [(1, Text ''{"access_token": "gho_abc"}'')],
          json_loads = example_loads, py_str = example_str,
          trace = [Slept 1000 5, Request 1005 (poll_request (JStr ''dc1'')),
                   Printed (MsgError (JStr ''denied by the user''))]\<rparr>) \<and>
   poll_loop (JStr ''dc1'') (JInt 5) (JInt 10) 1000
     (example_world
        [(1, Text ''{"error": "authorization_pending"}''),
         (1, Text ''{"access_token": "gho_abc"}'')]) =
   Some (Inr (JStr ''gho_abc''),
         \<lparr>clock = 1012, network = [],
          json_loads = example_loads, py_str = example_str,
          trace = [Slept 1000 5, Request 1005 (poll_request (JStr ''dc1'')), Printed MsgDot,
                   Slept 1006 5, Request 1011 (poll_request (JStr ''dc1'')),
                   Printed MsgTokenReceived]\<rparr>)\<close>
  using poll_error_handling
    [of \<open>example_world
        [(1, Text ''{"error": "access_denied", "error_description": "denied by the user"}''),
         (1, Text ''{"access_token": "gho_abc"}'')]\<close>
        1 \<open>''{"error": "access_denied", "error_description": "denied by the user"}''\<close>
        \<open>[(1, Text ''{"access_token": "gho_abc"}'')]\<close>
        \<open>[(''error'', JStr ''access_denied''),
          (''error_description'', JStr ''denied by the user'')]\<close>
        \<open>JStr ''access_denied''\<close> \<open>JInt 5\<close> 5 \<open>JInt 10\<close> 10 1000 \<open>JStr ''dc1''\<close>]
    poll_error_handling
    [of \<open>example_world
        [(1, Text ''{"error": "authorization_pending"}''),
         (1, Text ''{"access_token": "gho_abc"}'')]\<close>
        1 \<open>''{"error": "authorization_pending"}''\<close>
        \<open>[(1, Text ''{"access_token": "gho_abc"}'')]\<close>
        \<open>[(''error'', JStr ''authorization_pending'')]\<close>
        \<open>JStr ''authorization_pending''\<close> \<open>JInt 5\<close> 5 \<open>JInt 10\<close> 10 1000 \<open>JStr ''dc1''\<close>]
  by (simp add: eval_simps)

text \<open>
  Each of the three conditions is needed. The response \<^verbatim>\<open>{"error": ""}\<close> has no
  \<^verbatim>\<open>access_token\<close> and an error other than \<^verbatim>\<open>authorization_pending\<close>, and the
  loop goes on: it sleeps and polls again, and the run ends with the token of the second
  response. After an \<^verbatim>\<open>authorization_pending\<close> that takes 6 seconds to come, with an
  interval of 5 and an \<^verbatim>\<open>expires_in\<close> of 10, no other pass follows: the run is a
  timeout and the next reply is left unused. And a response with an \<^verbatim>\<open>access_token\<close>
  beside the error \<^verbatim>\<open>authorization_pending\<close> ends the loop with the token.
\<close>

theorem poll_error_counterexample:
  \<open>polling (JStr ''dc1'') (JInt 5) (JInt 10) 1000
     (example_world [(1, Text ''{"error": ""}''), (1, Text ''{"access_token": "gho_abc"}'')]) =
   Some (Inr (JStr ''gho_abc''),
         \<lparr>clock = 1012, network = [], json_loads = example_loads, py_str = example_str,
          trace = [Slept 1000 5, Request 1005 (poll_request (JStr ''dc1'')),
                   Slept 1006 5, Request 1011 (poll_request (JStr ''dc1'')),
                   Printed MsgTokenReceived]\<rparr>) \<and>
   polling (JStr ''dc1'') (JInt 5) (JInt 10) 1000
     (example_world [(6, Text ''{"error": "authorization_pending"}''),
                     (1, Text ''{"access_token": "gho_abc"}'')]) =
   Some (Inl TimeoutError,
         \<lparr>clock = 1011, network = [(1, Text ''{"access_token": "gho_abc"}'')],
          json_loads = example_loads, py_str = example_str,
          trace = [Slept 1000 5, Request 1005 (poll_request (JStr ''dc1'')), Printed MsgDot,
                   Printed MsgTimeout]\<rparr>) \<and>
   polling (JStr ''dc1'') (JInt 5) (JInt 10) 1000
     (example_world
        [(1, Text ''{"access_token": "gho_abc", "error": "authorization_pending"}''),
         (1, Text ''{"error": "authorization_pending"}'')]) =
   Some (Inr (JStr ''gho_abc''),
         \<lparr>clock = 1006, network = [(1, Text ''{"error": "authorization_pending"}'')],
          json_loads = example_loads, py_str = example_str,
          trace = [Slept 1000 5, Request 1005 (poll_request (JStr ''dc1'')),
                   Printed MsgTokenReceived]\<rparr>)\<close>
  by (simp add: eval_simps)

text \<open>
  C10, for responses that are JSON objects. When the poll response is a JSON object with
  neither an \<^verbatim>\<open>access_token\<close> nor an \<^verbatim>\<open>error\<close> field (the empty dict that stands
  for an empty body is one), the loop continues: it is back at its test after the sleep
  and the poll, with nothing printed and no error, and one more sleep-then-poll pass
  follows if the elapsed time read there is less than \<^verbatim>\<open>expires_in\<close>.
\<close>

theorem silent_continue:
  assumes "network w = (lat, Text txt) # rest"
    and "response_json w txt = Some (JObj kv)"
    and "map_of kv ''access_token'' = None"
    and "map_of kv ''error'' = None"
    and "py_number interval = Some d" and "0 \<le> d" and "d \<le> sleep_max"
    and "py_number expires_in = Some e" and "clock w - start_time < e"
  shows "poll_loop dc interval expires_in start_time w =
           at_test dc interval expires_in start_time e (cycle dc d lat rest w)"
  using assms
  by (simp add: poll_loop_reply handle_result_dict loop_step_def poll_loop_at_test)

theorem silent_continue_witness:
  \<open>poll_loop (JStr ''dc1'') (JInt 5) (JInt 10) 1000
     (example_world [(1, Text []), (1, Text ''{"access_token": "gho_abc"}'')]) =
   Some (Inr (JStr ''gho_abc''),
         \<lparr>clock = 1012, network = [], json_loads = example_loads, py_str = example_str,
          trace = [Slept 1000 5, Request 1005 (poll_request (JStr ''dc1'')),
                   Slept 1006 5, Request 1011 (poll_request (JStr ''dc1'')),
                   Printed MsgTokenReceived]\<rparr>)\<close>
  using silent_continue
    [of \<open>example_world [(1, Text []), (1, Text ''{"access_token": "gho_abc"}'')]\<close>
        1 \<open>[]\<close> \<open>[(1, Text ''{"access_token": "gho_abc"}'')]\<close> \<open>[]\<close>
        \<open>JInt 5\<close> 5 \<open>JInt 10\<close> 10 1000 \<open>JStr ''dc1''\<close>]
  by (simp add: eval_simps)

text \<open>
  For a response that is no JSON object the property fails. The poll response \<^verbatim>\<open>[]\<close>
  has neither an \<^verbatim>\<open>access_token\<close> nor an \<^verbatim>\<open>error\<close> field; the test for
  \<^verbatim>\<open>access_token\<close> fails on it, and \<^verbatim>\<open>result.get("error")\<close> (line 127) then raises
  an \<^verbatim>\<open>AttributeError\<close>, since a list has no \<^verbatim>\<open>get\<close>: the run ends with that
  exception, six seconds into the ten allowed, and the next reply is left unused.
\<close>

theorem poll_response_not_object_counterexample:
  \<open>polling (JStr ''dc1'') (JInt 5) (JInt 10) 1000
     (example_world [(1, Text ''[]''), (1, Text ''{"access_token": "gho_abc"}'')]) =
   Some (Inl (Uncaught AttributeError),
         \<lparr>clock = 1006, network = [(1, Text ''{"access_token": "gho_abc"}'')],
          json_loads = example_loads, py_str = example_str,
          trace = [Slept 1000 5, Request 1005 (poll_request (JStr ''dc1''))]\<rparr>)\<close>
  by (simp add: eval_simps handle_result_def lift_def)

text \<open>
  C7, for failures other than an empty body. When the poll ends in a connection failure,
  in a body that is not UTF-8, or in a body that is not empty and that \<^verbatim>\<open>json.loads\<close>
  rejects, the exception of the failed call ends the loop and the script at once: it is
  not the exit for an \<^verbatim>\<open>error\<close> field, nothing is printed, and no sleep or poll
  follows.
\<close>

theorem transport_failure_ends_polling:
  assumes "network w = (lat, r) # rest"
    and "r = ConnectionFailed \<or> r = UndecodableBody \<or>
         (\<exists>txt. r = Text txt \<and> txt \<noteq> [] \<and> json_loads w txt = None)"
    and "py_number interval = Some d" and "0 \<le> d" and "d \<le> sleep_max"
    and "py_number expires_in = Some e" and "clock w - start_time < e"
  shows "poll_loop dc interval expires_in start_time w =
           Some (Inl (TransportError (transport_failure_of r)), cycle dc d lat rest w) \<and>
         polling dc interval expires_in start_time w =
           Some (Inl (TransportError (transport_failure_of r)), cycle dc d lat rest w)"
proof -
  from assms(2) have "reply_outcome w r = Inl (TransportError (transport_failure_of r))"
    by (auto simp: reply_outcome_def response_json_def)
  with assms have "poll_loop dc interval expires_in start_time w =
      Some (Inl (TransportError (transport_failure_of r)), cycle dc d lat rest w)"
    by (simp add: poll_loop_at_test at_test_def loop_body_run loop_step_def)
  then show ?thesis
    by (simp add: polling_result)
qed

theorem transport_failure_ends_polling_witness:
  \<open>polling (JStr ''dc1'') (JInt 5) (JInt 10) 1000
     (example_world [(1, Text ''<html>Bad Gateway</html>''),
                     (1, Text ''{"access_token": "gho_abc"}'')]) =
   Some (Inl (TransportError JSONDecodeError),
         \<lparr>clock = 1006, network = [(1, Text ''{"access_token": "gho_abc"}'')],
          json_loads = example_loads, py_str = example_str,
          trace = [Slept 1000 5, Request 1005 (poll_request (JStr ''dc1''))]\<rparr>) \<and>
   polling (JStr ''dc1'') (JInt 5) (JInt 10) 1000
     (example_world [(1, ConnectionFailed), (1, Text ''{"access_token": "gho_abc"}'')]) =
   Some (Inl (TransportError ConnectionError),
         \<lparr>clock = 1006, network = [(1, Text ''{"access_token": "gho_abc"}'')],
          json_loads = example_loads, py_str = example_str,
          trace = [Slept 1000 5, Request 1005 (poll_request (JStr ''dc1''))]\<rparr>)\<close>
  using transport_failure_ends_polling
    [of \<open>example_world [(1, Text ''<html>Bad Gateway</html>''),
                     (1, Text ''{"access_token": "gho_abc"}'')]\<close>
        1 \<open>Text ''<html>Bad Gateway</html>''\<close> \<open>[(1, Text ''{"access_token": "gho_abc"}'')]\<close>
        \<open>JInt 5\<close> 5 \<open>JInt 10\<close> 10 1000 \<open>JStr ''dc1''\<close>]
    transport_failure_ends_polling
    [of \<open>example_world [(1, ConnectionFailed), (1, Text ''{"access_token": "gho_abc"}'')]\<close>
        1 \<open>ConnectionFailed\<close> \<open>[(1, Text ''{"access_token": "gho_abc"}'')]\<close>
        \<open>JInt 5\<close> 5 \<open>JInt 10\<close> 10 1000 \<open>JStr ''dc1''\<close>]
  by (simp add: example_world_def example_loads_def example_bodies_def
        cycle_def exchanged_def slept_def sleep_max_def)

text \<open>
  For an empty body the property fails. An empty body is no JSON text, and
  \<^verbatim>\<open>make_request\<close> reads it as the empty dict: the loop goes on with nothing printed,
  sleeps and polls again, and here the run ends with the token of the second response.
\<close>

theorem empty_body_counterexample:
  \<open>polling (JStr ''dc1'') (JInt 5) (JInt 10) 1000
     (example_world [(1, Text []), (1, Text ''{"access_token": "gho_abc"}'')]) =
   Some (Inr (JStr ''gho_abc''),
         \<lparr>clock = 1012, network = [], json_loads = example_loads, py_str = example_str,
          trace = [Slept 1000 5, Request 1005 (poll_request (JStr ''dc1'')),
                   Slept 1006 5, Request 1011 (poll_request (JStr ''dc1'')),
                   Printed MsgTokenReceived]\<rparr>)\<close>
  by (simp add: eval_simps)

text \<open>
  C2, with the elapsed time as the test of the loop reads it, for an \<^verbatim>\<open>expires_in\<close>
  that is a finite number \<open>e\<close>. In every run, every sleep began at a test of the loop that
  read less than \<open>e\<close>: once the test reads \<open>e\<close> or more, no pass is started. At such a
  test the run ends as a timeout, without a sleep or a poll. And when the interval is a
  number that \<^verbatim>\<open>time.sleep\<close> accepts (not negative, and at most \<^const>\<open>sleep_max\<close>),
  every reply says that the user has not authorized yet (each after a time that is not
  negative) and the replies cover the time left, the run ends as a timeout, at a test
  that reads \<open>e\<close> or more. A poll is sent after the sleep whatever the clock then reads.
\<close>

theorem polling_deadline:
  assumes "py_number expires_in = Some e"
  shows "(\<forall>r w'. polling dc interval expires_in start_time w = Some (r, w') \<longrightarrow>
            (\<exists>new. trace w' = trace w @ new \<and>
               list_all (began_in_time e start_time) new)) \<and>
         (e \<le> clock w - start_time \<longrightarrow>
            polling dc interval expires_in start_time w =
              Some (Inl TimeoutError, printed MsgTimeout w)) \<and>
         (py_number interval = Some d \<and> 0 \<le> d \<and> d \<le> sleep_max \<and>
          list_all (pending_reply w) (network w) \<and>
          e - (clock w - start_time) \<le> covered d (network w) \<longrightarrow>
            (\<exists>w' new. polling dc interval expires_in start_time w = Some (Inl TimeoutError, w') \<and>
               trace w' = trace w @ new @ [Printed MsgTimeout] \<and>
               list_all (began_in_time e start_time) new \<and>
               e \<le> clock w' - start_time))"
proof (intro conjI impI allI)
  fix r w'
  assume "polling dc interval expires_in start_time w = Some (r, w')"
  then show "\<exists>new. trace w' = trace w @ new \<and> list_all (began_in_time e start_time) new"
    using assms by (rule polling_trace)
next
  assume "e \<le> clock w - start_time"
  then have "poll_loop dc interval expires_in start_time w = Some (Inr JNull, w)"
    using assms by (simp add: poll_loop_at_test at_test_def)
  then show "polling dc interval expires_in start_time w =
      Some (Inl TimeoutError, printed MsgTimeout w)"
    by (simp add: polling_result timeout_check_run)
next
  assume h: "py_number interval = Some d \<and> 0 \<le> d \<and> d \<le> sleep_max \<and>
          list_all (pending_reply w) (network w) \<and>
          e - (clock w - start_time) \<le> covered d (network w)"
  then obtain w1 new where
    run: "poll_loop dc interval expires_in start_time w = Some (Inr JNull, w1)" and
    tr: "trace w1 = trace w @ new" and
    ok: "list_all (began_in_time e start_time) new" and
    late: "e \<le> clock w1 - start_time"
    using pending_run [OF _ _ _ assms, of interval d w "network w" start_time dc] by blast
  from run have "polling dc interval expires_in start_time w =
      Some (Inl TimeoutError, printed MsgTimeout w1)"
    by (simp add: polling_result timeout_check_run)
  moreover have "trace (printed MsgTimeout w1) = trace w @ new @ [Printed MsgTimeout]"
    using tr by (simp add: printed_def)
  moreover have "e \<le> clock (printed MsgTimeout w1) - start_time"
    using late by (simp add: printed_def)
  ultimately show "\<exists>w' new. polling dc interval expires_in start_time w =
      Some (Inl TimeoutError, w') \<and>
      trace w' = trace w @ new @ [Printed MsgTimeout] \<and>
      list_all (began_in_time e start_time) new \<and> e \<le> clock w' - start_time"
    using ok by (intro exI [of _ "printed MsgTimeout w1"] exI [of _ new] conjI)
qed

theorem polling_deadline_witness:
  \<open>polling (JStr ''dc1'') (JInt 5) (JInt 10) 1000
     (example_world [(1, Text ''{"access_token": "gho_abc"}'')]\<lparr>clock := 1010\<rparr>) =
   Some (Inl TimeoutError,
         \<lparr>clock = 1010, network = [(1, Text ''{"access_token": "gho_abc"}'')],
          json_loads = example_loads, py_str = example_str, trace = [Printed MsgTimeout]\<rparr>) \<and>
   (\<exists>w' new.
      polling (JStr ''dc1'') (JInt 5) (JInt 10) 1000
        (example_world [(1, Text ''{"error": "authorization_pending"}''),
                        (1, Text ''{"error": "authorization_pending"}'')]) =
      Some (Inl TimeoutError, w') \<and>
      trace w' = new @ [Printed MsgTimeout] \<and>
      list_all (began_in_time 10 1000) new \<and> 10 \<le> clock w' - 1000)\<close>
proof -
  let ?w = \<open>example_world [(1, Text ''{"error": "authorization_pending"}''),
                          (1, Text ''{"error": "authorization_pending"}'')]\<close>
  have h: "py_number (JInt 5) = Some 5 \<and> (0 :: rat) \<le> 5 \<and> 5 \<le> sleep_max \<and>
      list_all (pending_reply ?w) (network ?w) \<and>
      10 - (clock ?w - 1000) \<le> covered 5 (network ?w)"
    by (simp add: example_world_def example_loads_def example_bodies_def pending_reply_def
          pending_def response_json_def covered_def sleep_max_def)
  have t: "trace ?w = []"
    by (simp add: example_world_def)
  show ?thesis
    using polling_deadline
      [where expires_in = \<open>JInt 10\<close> and e = 10 and start_time = 1000
         and dc = \<open>JStr ''dc1''\<close> and interval = \<open>JInt 5\<close> and d = 5
         and w = \<open>example_world [(1, Text ''{"access_token": "gho_abc"}'')]\<lparr>clock := 1010\<rparr>\<close>]
      polling_deadline
      [where expires_in = \<open>JInt 10\<close> and e = 10 and start_time = 1000
         and dc = \<open>JStr ''dc1''\<close> and interval = \<open>JInt 5\<close> and d = 5 and w = ?w]
      h t
    by (simp add: example_world_def printed_def)
qed

text \<open>
  A poll can be sent when \<^verbatim>\<open>expires_in\<close> seconds or more have passed. With an interval
  of 5 and an \<^verbatim>\<open>expires_in\<close> of 10, and replies that take one second, the second test
  reads 6 seconds, and the second poll is sent after the sleep that follows, 11 seconds
  after the start. And not every interval leads to the timeout: with an interval of
  10000000000 seconds \<^verbatim>\<open>time.sleep\<close> raises an \<^verbatim>\<open>OverflowError\<close> in the first pass,
  and the run ends with it.
\<close>

theorem poll_after_deadline_counterexample:
  \<open>polling (JStr ''dc1'') (JInt 5) (JInt 10) 1000
     (example_world [(1, Text ''{"error": "authorization_pending"}''),
                     (1, Text ''{"error": "authorization_pending"}'')]) =
   Some (Inl TimeoutError,
         \<lparr>clock = 1012, network = [], json_loads = example_loads, py_str = example_str,
          trace = [Slept 1000 5, Request 1005 (poll_request (JStr ''dc1'')), Printed MsgDot,
                   Slept 1006 5, Request 1011 (poll_request (JStr ''dc1'')), Printed MsgDot,
                   Printed MsgTimeout]\<rparr>) \<and>
   (10 :: rat) \<le> 1011 - 1000 \<and>
   polling (JStr ''dc1'') (JInt 10000000000) (JInt 10) 1000
     (example_world [(1, Text ''{"error": "authorization_pending"}'')]) =
   Some (Inl (Uncaught OverflowError),
         \<lparr>clock = 1000, network = [(1, Text ''{"error": "authorization_pending"}'')],
          json_loads = example_loads, py_str = example_str, trace = []\<rparr>)\<close>
  by (simp add: eval_simps)

section \<open>The exchange\<close>

text \<open>
  In the theorems of this section the exchange server's response is a JSON object, and
  the request could be sent: \<^verbatim>\<open>http.client\<close> accepts the \<^verbatim>\<open>Authorization\<close>
  header made of the GitHub token, which in \<^verbatim>\<open>get_copilot_token.py\<close> is the value
  \<open>github_token\<close> that the polling returned and in \<^verbatim>\<open>get_enterprise_token.py\<close> the
  str \<open>s\<close>.
\<close>

text \<open>
  C4, for responses that are JSON objects and up to the end of the report. Let the
  response be a JSON object with a \<^verbatim>\<open>token\<close> field, and let \<open>expires_at\<close> be the value
  of its \<^verbatim>\<open>expires_at\<close> field, or 0 when it has no such field; let \<open>expires_at\<close> be a
  value that \<^verbatim>\<open>time.localtime\<close> accepts. Then \<^verbatim>\<open>get_copilot_token.py\<close>, when the
  GitHub token can be sliced, and \<^verbatim>\<open>get_enterprise_token.py\<close>, when the Copilot token
  can be sliced, report the tokens and hold the Copilot token whose \<open>token\<close> is the value
  of the \<^verbatim>\<open>token\<close> field and whose \<open>expiresAt\<close> is \<open>expires_at\<close>. One request is sent,
  and nothing is printed about a failure.
\<close>

theorem exchange_returns_secondary_token:
  assumes "network w = (lat, Text data) # rest"
    and "response_json w data = Some (JObj kv)"
    and "map_of kv ''token'' = Some t"
    and "expires_at = (case map_of kv ''expires_at'' of None \<Rightarrow> JInt 0 | Some x \<Rightarrow> x)"
    and "localtime_accepts localtime expires_at"
  shows "(sendable (exchange_request (token_text w github_token)) \<and> sliceable github_token \<longrightarrow>
            main_exchange localtime github_token w =
              Some (Inr (Some \<lparr>token = t, expiresAt = expires_at\<rparr>),
                    printed (MsgUsage github_token)
                      (printed (MsgExpiresAt expires_at)
                         (printed (MsgCopilotToken t)
                            (printed (MsgGitHubToken github_token)
                               (exchanged (exchange_request (token_text w github_token))
                                  lat rest w)))))) \<and>
         (sendable (exchange_request s) \<and> sliceable t \<longrightarrow>
            ent_main_exchange localtime s w =
              Some (Inr \<lparr>token = t, expiresAt = expires_at\<rparr>,
                    printed (MsgExpiresAt expires_at)
                      (printed (MsgCopilotToken t)
                         (printed (MsgGitHubToken (JStr s))
                            (exchanged (exchange_request s) lat rest w)))))"
proof (intro conjI impI)
  assume "sendable (exchange_request (token_text w github_token)) \<and> sliceable github_token"
  with assms show "main_exchange localtime github_token w =
      Some (Inr (Some \<lparr>token = t, expiresAt = expires_at\<rparr>),
            printed (MsgUsage github_token)
              (printed (MsgExpiresAt expires_at)
                 (printed (MsgCopilotToken t)
                    (printed (MsgGitHubToken github_token)
                       (exchanged (exchange_request (token_text w github_token))
                          lat rest w)))))"
    by (simp add: main_exchange_def bind_result [OF get_copilot_token_run]
          reply_outcome_Text run_simps return_def localtime_accepts_def sliceable_def
        split: option.splits)
next
  assume "sendable (exchange_request s) \<and> sliceable t"
  moreover have "token_text w (JStr s) = s"
    by (simp add: token_text_def)
  ultimately show "ent_main_exchange localtime s w =
      Some (Inr \<lparr>token = t, expiresAt = expires_at\<rparr>,
            printed (MsgExpiresAt expires_at)
              (printed (MsgCopilotToken t)
                 (printed (MsgGitHubToken (JStr s))
                    (exchanged (exchange_request s) lat rest w))))"
    using assms
    by (simp add: ent_main_exchange_def
          bind_result [OF ent_get_copilot_token_run [where github_token = "JStr s"]]
          reply_outcome_Text run_simps return_def localtime_accepts_def sliceable_def
        split: option.splits)
qed

text \<open>
  The response \<^verbatim>\<open>{"token": "abc", "expires_at": 1700000000}\<close> yields the token
  \<^verbatim>\<open>abc\<close> with \<open>expiresAt\<close> 1700000000, in both scripts.
\<close>

theorem exchange_returns_secondary_token_witness:
  \<open>main_exchange example_localtime (JStr ''gho_abc'')
     (example_world [(1, Text ''{"token": "abc", "expires_at": 1700000000}'')]) =
   Some (Inr (Some \<lparr>token = JStr ''abc'', expiresAt = JInt 1700000000\<rparr>),
         \<lparr>clock = 1001, network = [], json_loads = example_loads, py_str = example_str,
          trace = [Request 1000 (exchange_request ''gho_abc''),
                   Printed (MsgGitHubToken (JStr ''gho_abc'')),
                   Printed (MsgCopilotToken (JStr ''abc'')),
                   Printed (MsgExpiresAt (JInt 1700000000)),
                   Printed (MsgUsage (JStr ''gho_abc''))]\<rparr>) \<and>
   ent_main_exchange example_localtime ''gho_abc''
     (example_world [(1, Text ''{"token": "abc", "expires_at": 1700000000}'')]) =
   Some (Inr \<lparr>token = JStr ''abc'', expiresAt = JInt 1700000000\<rparr>,
         \<lparr>clock = 1001, network = [], json_loads = example_loads, py_str = example_str,
          trace = [Request 1000 (exchange_request ''gho_abc''),
                   Printed (MsgGitHubToken (JStr ''gho_abc'')),
                   Printed (MsgCopilotToken (JStr ''abc'')),
                   Printed (MsgExpiresAt (JInt 1700000000))]\<rparr>)\<close>
  using exchange_returns_secondary_token
    [where w = \<open>example_world [(1, Text ''{"token": "abc", "expires_at": 1700000000}'')]\<close>
       and lat = 1 and data = \<open>''{"token": "abc", "expires_at": 1700000000}''\<close>
       and rest = \<open>[]\<close>
       and kv = \<open>[(''token'', JStr ''abc''), (''expires_at'', JInt 1700000000)]\<close>
       and t = \<open>JStr ''abc''\<close> and expires_at = \<open>JInt 1700000000\<close>
       and localtime = example_localtime
       and github_token = \<open>JStr ''gho_abc''\<close> and s = \<open>''gho_abc''\<close>]
  by (simp add: example_world_def response_json_def example_loads_def example_bodies_def
        exchanged_def printed_def token_text_def sendable_def exchange_request_def latin1_def
        sliceable_def localtime_accepts_def example_localtime_def)

text \<open>
  Without these conditions the property fails. The response
  \<^verbatim>\<open>{"token": "abc", "expires_at": "tomorrow"}\<close> has a \<^verbatim>\<open>token\<close> field, and
  \<^verbatim>\<open>get_copilot_token.py\<close> prints both tokens and then ends with the \<^verbatim>\<open>TypeError\<close>
  that \<^verbatim>\<open>time.localtime\<close> raises for a str (line 161): no Copilot token is held at
  the end or written. And for a GitHub token that ends in a line feed, as the environment
  can give it to \<^verbatim>\<open>get_enterprise_token.py\<close>, \<^verbatim>\<open>http.client\<close> raises a
  \<^verbatim>\<open>ValueError\<close> for the header: nothing is sent and the response is not read.
\<close>

theorem exchange_report_counterexample:
  \<open>main_exchange example_localtime (JStr ''gho_abc'')
     (example_world [(1, Text ''{"token": "abc", "expires_at": "tomorrow"}'')]) =
   Some (Inl (Uncaught TypeError),
         \<lparr>clock = 1001, network = [], json_loads = example_loads, py_str = example_str,
          trace = [Request 1000 (exchange_request ''gho_abc''),
                   Printed (MsgGitHubToken (JStr ''gho_abc'')),
                   Printed (MsgCopilotToken (JStr ''abc''))]\<rparr>) \<and>
   ent_main_exchange example_localtime (''gho_abc'' @ [CHR 0x0A])
     (example_world [(1, Text ''{"token": "abc", "expires_at": 1700000000}'')]) =
   Some (Inl (Uncaught ValueError),
         \<lparr>clock = 1000,
          network = [(1, Text ''{"token": "abc", "expires_at": 1700000000}'')],
          json_loads = example_loads, py_str = example_str, trace = []\<rparr>)\<close>
  by (simp add: main_exchange_def ent_main_exchange_def get_copilot_token_def
        ent_get_copilot_token_def https_exchange_def make_request_eval latin1_def
        bind_def lift_def emit_def return_def py_format_def loads_def
        reply_outcome_def response_json_def exchanged_def printed_def exchange_request_def
        example_world_def example_loads_def example_bodies_def Let_def)

text \<open>
  C5, for responses that are JSON objects. When the response is a JSON object without a
  \<^verbatim>\<open>token\<close> field, neither script holds a Copilot token, whole or in part, and both
  print the response as the server gave it as the failure. \<^verbatim>\<open>get_enterprise_token.py\<close>
  then exits with status 1: the exchange error, which carries the response.
  \<^verbatim>\<open>get_copilot_token.py\<close> then prints the GitHub token, and \<^verbatim>\<open>main\<close> returns.
\<close>

theorem exchange_without_token_fails:
  assumes "network w = (lat, Text data) # rest"
    and "response_json w data = Some (JObj kv)"
    and "map_of kv ''token'' = None"
  shows "(sendable (exchange_request s) \<longrightarrow>
            ent_main_exchange localtime s w =
              Some (Inl (ExchangeError (JObj kv)),
                    printed (MsgExchangeFailed (JObj kv))
                      (exchanged (exchange_request s) lat rest w))) \<and>
         (sendable (exchange_request (token_text w github_token)) \<longrightarrow>
            main_exchange localtime github_token w =
              Some (Inr None,
                    printed (MsgGitHubToken github_token)
                      (printed (MsgExchangeFailed (JObj kv))
                         (exchanged (exchange_request (token_text w github_token))
                            lat rest w))))"
proof (intro conjI impI)
  assume "sendable (exchange_request s)"
  moreover have "token_text w (JStr s) = s"
    by (simp add: token_text_def)
  ultimately show "ent_main_exchange localtime s w =
      Some (Inl (ExchangeError (JObj kv)),
            printed (MsgExchangeFailed (JObj kv)) (exchanged (exchange_request s) lat rest w))"
    using assms
    by (simp add: ent_main_exchange_def
          bind_result [OF ent_get_copilot_token_run [where github_token = "JStr s"]]
          reply_outcome_Text run_simps raise_def)
next
  assume "sendable (exchange_request (token_text w github_token))"
  with assms show "main_exchange localtime github_token w =
      Some (Inr None,
            printed (MsgGitHubToken github_token)
              (printed (MsgExchangeFailed (JObj kv))
                 (exchanged (exchange_request (token_text w github_token)) lat rest w)))"
    by (simp add: main_exchange_def bind_result [OF get_copilot_token_run]
          reply_outcome_Text run_simps return_def)
qed

theorem exchange_without_token_fails_witness:
  \<open>ent_main_exchange example_localtime ''gho_abc''
     (example_world [(1, Text ''{"error": "not_authorized"}'')]) =
   Some (Inl (ExchangeError (JObj [(''error'', JStr ''not_authorized'')])),
         \<lparr>clock = 1001, network = [], json_loads = example_loads, py_str = example_str,
          trace = [Request 1000 (exchange_request ''gho_abc''),
                   Printed (MsgExchangeFailed (JObj [(''error'', JStr ''not_authorized'')]))]\<rparr>)\<close>
  using exchange_without_token_fails
    [where w = \<open>example_world [(1, Text ''{"error": "not_authorized"}'')]\<close>
       and lat = 1 and data = \<open>''{"error": "not_authorized"}''\<close> and rest = \<open>[]\<close>
       and kv = \<open>[(''error'', JStr ''not_authorized'')]\<close>
       and localtime = example_localtime
       and github_token = \<open>JStr ''gho_abc''\<close> and s = \<open>''gho_abc''\<close>]
  by (simp add: example_world_def response_json_def example_loads_def example_bodies_def
        exchanged_def printed_def token_text_def sendable_def exchange_request_def latin1_def)

text \<open>
  As the property is stated it fails. For the response \<^verbatim>\<open>null\<close>, which has no
  \<^verbatim>\<open>token\<close> field, the test \<^verbatim>\<open>"token" in copilot_data\<close> (line 98 of
  \<^verbatim>\<open>get_enterprise_token.py\<close>) raises a \<^verbatim>\<open>TypeError\<close>: the script ends with that
  exception, and the response is not printed. And for the response
  \<^verbatim>\<open>{"error": "not_authorized"}\<close> the \<^verbatim>\<open>main\<close> of \<^verbatim>\<open>get_copilot_token.py\<close>
  returns after its two lines, with no error.
\<close>

theorem exchange_without_token_counterexample:
  \<open>ent_main_exchange example_localtime ''gho_abc'' (example_world [(1, Text ''null'')]) =
   Some (Inl (Uncaught TypeError),
         \<lparr>clock = 1001, network = [], json_loads = example_loads, py_str = example_str,
          trace = [Request 1000 (exchange_request ''gho_abc'')]\<rparr>) \<and>
   main_exchange example_localtime (JStr ''gho_abc'')
     (example_world [(1, Text ''{"error": "not_authorized"}'')]) =
   Some (Inr None,
         \<lparr>clock = 1001, network = [], json_loads = example_loads, py_str = example_str,
          trace = [Request 1000 (exchange_request ''gho_abc''),
                   Printed (MsgExchangeFailed (JObj [(''error'', JStr ''not_authorized'')])),
                   Printed (MsgGitHubToken (JStr ''gho_abc''))]\<rparr>)\<close>
  by (simp add: main_exchange_def ent_main_exchange_def get_copilot_token_def
        ent_get_copilot_token_def https_exchange_def make_request_eval latin1_def
        bind_def lift_def emit_def return_def raise_def py_format_def loads_def
        reply_outcome_def response_json_def exchanged_def printed_def exchange_request_def
        example_world_def example_loads_def example_bodies_def Let_def)

text \<open>
  C9. The two functions \<^verbatim>\<open>get_copilot_token\<close> are the same program: for every token
  and in every world they send the same request (the world's trace records it: host,
  method, path, headers, no body) and return or raise the same.
\<close>

theorem get_copilot_token_same:
  "get_copilot_token github_token = ent_get_copilot_token github_token"
  by (rule ext)
     (simp add: get_copilot_token_def ent_get_copilot_token_def make_request_def bind_def
        py_format_def Let_def)

end
